theory Spec2Isabelle
  imports Complex_Main
begin

section \<open>Numbers, errors and vectors\<close>

text \<open>
  The program computes with JavaScript numbers. Finite values are modelled as \<open>real\<close>
  (the claims are stated over the reals). Wherever the program would produce a value
  that is not a finite number (a division by zero, \<open>Math.min()\<close> of an empty list, a
  quotient of infinities) the model stops with \<open>NonFinite\<close>: the program itself goes
  on with \<open>NaN\<close> or an infinity, which the model does not follow (but for the angular
  variables of the integrator, which are followed there). The two exceptions the
  program can raise are the explicit \<open>throw new Error(msg)\<close> and the \<open>TypeError\<close> of
  the language (a property read on \<open>undefined\<close>, an assignment to a read-only property
  in strict code).
\<close>

datatype error = Error string | TypeError | NonFinite

text \<open>
  Mass and rotational inertia are the two quantities that hold \<open>Infinity\<close> in ordinary
  use (a static body), so they get a type with that value and \<open>NaN\<close>.
\<close>

datatype jsnum = Fin real | Infinity | NaN

text \<open>Truthiness of a number: \<open>0\<close> and \<open>NaN\<close> are falsy.\<close>

fun truthy :: "jsnum \<Rightarrow> bool" where
  "truthy (Fin r) = (r \<noteq> 0)"
| "truthy Infinity = True"
| "truthy NaN = False"

text \<open>\<open>class Vector { constructor(x, y) }\<close>\<close>

datatype Vector = Vector (x: real) (y: real)

text \<open>\<open>get magnitude()\<close>: \<open>Math.sqrt(Math.pow(this.x, 2) + Math.pow(this.y, 2))\<close>\<close>

definition magnitude :: "Vector \<Rightarrow> real" where
  "magnitude v = sqrt ((x v)\<^sup>2 + (y v)\<^sup>2)"

text \<open>\<open>multipliedBy(scalar)\<close> and \<open>dividedBy(scalar)\<close> return new vectors.\<close>

definition multipliedBy :: "Vector \<Rightarrow> real \<Rightarrow> Vector" where
  "multipliedBy v scalar = Vector (x v * scalar) (y v * scalar)"

definition dividedBy :: "Vector \<Rightarrow> real \<Rightarrow> error + Vector" where
  "dividedBy v scalar =
     (if scalar = 0 then Inl NonFinite else Inr (Vector (x v / scalar) (y v / scalar)))"

text \<open>\<open>add(vector)\<close> and \<open>subtract(vector)\<close> mutate the receiver; the model returns it.\<close>

definition add :: "Vector \<Rightarrow> Vector \<Rightarrow> Vector" where
  "add v w = Vector (x v + x w) (y v + y w)"

definition subtract :: "Vector \<Rightarrow> Vector \<Rightarrow> Vector" where
  "subtract v w = Vector (x v - x w) (y v - y w)"

text \<open>
  \<open>unit()\<close>: \<open>new Vector(this.x / this.magnitude, this.y / this.magnitude)\<close>; for the zero
  vector both components are \<open>0 / 0\<close>.
\<close>

definition unit :: "Vector \<Rightarrow> error + Vector" where
  "unit v =
     (if magnitude v = 0 then Inl NonFinite
      else Inr (Vector (x v / magnitude v) (y v / magnitude v)))"

text \<open>
  \<open>set magnitude(mag)\<close>: \<open>factor = mag / this.magnitude; this.x *= factor; this.y *= factor\<close>
\<close>

definition set_magnitude :: "Vector \<Rightarrow> real \<Rightarrow> error + Vector" where
  "set_magnitude v mag =
     (if magnitude v = 0 then Inl NonFinite
      else (let factor = mag / magnitude v in Inr (Vector (x v * factor) (y v * factor))))"

text \<open>
  The static, variadic \<open>Vector.sum(...vectors)\<close>, \<open>Vector.difference(minuend, ...subtrahends)\<close>
  and \<open>Vector.dot(...vectors)\<close>: each is a loop over its arguments, with the accumulators
  the source starts from.
\<close>

definition Vector_sum :: "Vector list \<Rightarrow> Vector" where
  "Vector_sum vectors = fold (\<lambda>element acc. Vector (x acc + x element) (y acc + y element))
                             vectors (Vector 0 0)"

definition Vector_difference :: "Vector \<Rightarrow> Vector list \<Rightarrow> Vector" where
  "Vector_difference minuend subtrahends =
     fold (\<lambda>element acc. Vector (x acc - x element) (y acc - y element))
          subtrahends (Vector (x minuend) (y minuend))"

definition Vector_dot :: "Vector list \<Rightarrow> real" where
  "Vector_dot vectors =
     (let p = fold (\<lambda>element acc. (fst acc * x element, snd acc * y element))
                   vectors (1, 1)
      in fst p + snd p)"

text \<open>
  \<open>Math.atan2(y, x)\<close> on finite arguments (the sign of a zero is not modelled), the
  remainder operator \<open>a % b\<close> (truncated division: the result has the sign of \<open>a\<close>; the
  divisor is never \<open>0\<close> where the program uses it), and \<open>Math.min(...list)\<close>,
  \<open>Math.max(...list)\<close>, which are infinite on the empty list.
\<close>

definition Math_atan2 :: "real \<Rightarrow> real \<Rightarrow> real" where
  "Math_atan2 b a =
     (if 0 < a then arctan (b / a)
      else if a < 0 \<and> 0 \<le> b then arctan (b / a) + pi
      else if a < 0 \<and> b < 0 then arctan (b / a) - pi
      else if 0 < b then pi / 2
      else if b < 0 then - (pi / 2)
      else 0)"

definition trunc :: "real \<Rightarrow> int" where
  "trunc r = (if 0 \<le> r then \<lfloor>r\<rfloor> else \<lceil>r\<rceil>)"

definition js_rem :: "real \<Rightarrow> real \<Rightarrow> real" where
  "js_rem a b = a - b * of_int (trunc (a / b))"

fun Math_min :: "real list \<Rightarrow> error + real" where
  "Math_min [] = Inl NonFinite"
| "Math_min (p # ps) = Inr (fold min ps p)"

fun Math_max :: "real list \<Rightarrow> error + real" where
  "Math_max [] = Inl NonFinite"
| "Math_max (p # ps) = Inr (fold max ps p)"

text \<open>\<open>get angle()\<close>, \<open>set angle(angle)\<close> and \<open>rotate(angle, origin)\<close> of a vector.\<close>

definition Vector_angle :: "Vector \<Rightarrow> real" where
  "Vector_angle v =
     (let angle = Math_atan2 (- y v) (x v)
      in if angle < 0 then angle + pi * 2 else angle)"

definition set_angle :: "Vector \<Rightarrow> real \<Rightarrow> Vector" where
  "set_angle v angle =
     (let mag = magnitude v in Vector (mag * cos angle) (- (mag * sin angle)))"

definition Vector_rotate :: "Vector \<Rightarrow> real \<Rightarrow> Vector \<Rightarrow> Vector" where
  "Vector_rotate v angle origin =
     (let v1 = subtract v origin;
          v2 = set_angle v1 (Vector_angle v1 + angle)
      in add v2 origin)"

text \<open>Sequencing of computations that can fail, and \<open>Array.map\<close> with a failing function.\<close>

fun bind :: "error + 'a \<Rightarrow> ('a \<Rightarrow> error + 'b) \<Rightarrow> error + 'b" where
  "bind (Inl e) f = Inl e"
| "bind (Inr v) f = f v"

fun traverse :: "('a \<Rightarrow> error + 'b) \<Rightarrow> 'a list \<Rightarrow> error + 'b list" where
  "traverse f [] = Inr []"
| "traverse f (a # as) = bind (f a) (\<lambda>b. bind (traverse f as) (\<lambda>bs. Inr (b # bs)))"

section \<open>Worlds and bodies\<close>

text \<open>
  \<open>class World\<close>: the fields a body reads, \<open>gravity\<close> and \<open>force\<close> (here \<open>world_force\<close>).
\<close>

datatype World = World (gravity: Vector) (world_force: Vector)

text \<open>
  \<open>class Circle extends Body\<close> and \<open>class Polygon extends Body\<close>: the shape of a body is a
  tag with the fields the subclass adds, and \<open>instanceof\<close> is a test of the tag. The
  \<open>sides\<close> of a polygon are \<open>Line\<close> objects built once from the vertex objects themselves,
  and every change of a vertex is made in place, so the sides are always
  \<open>getSides\<close> of the current vertices.
\<close>

datatype Shape = Circle real | Polygon "Vector list" Vector

datatype Line = Line (pointA: Vector) (pointB: Vector)

text \<open>
  The state of a body: the variables closed over by the accessors that
  \<open>Object.defineProperties\<close> installs in the constructor of \<open>Body\<close>, and the data
  properties \<open>rotationalInertia\<close> and \<open>world\<close>. \<open>rotationalInertia\<close> is defined there
  without \<open>writable\<close>, which leaves the attribute \<open>false\<close>; the model keeps the attribute.
  Vector-valued fields are held by value: detection and resolution are modelled for
  bodies whose fields do not share one \<open>Vector\<close> object. The integrator \<open>update()\<close>
  changes \<open>Vector\<close> objects in place and is modelled on the store further down, where the
  fields of a body are references and can share an object.
\<close>

record Body =
  position :: Vector
  angle :: real
  velocity :: Vector
  angularVelocity :: real
  acceleration :: Vector
  angularAcceleration :: real
  mass :: jsnum
  force :: Vector
  torque :: real
  isStatic :: bool
  rotationalInertia :: jsnum
  rotationalInertia_writable :: bool
  world :: "World option"
  shape :: Shape

definition is_Circle :: "Body \<Rightarrow> bool" where
  "is_Circle b = (case shape b of Circle r \<Rightarrow> True | Polygon vs c \<Rightarrow> False)"

definition is_Polygon :: "Body \<Rightarrow> bool" where
  "is_Polygon b = (case shape b of Circle r \<Rightarrow> False | Polygon vs c \<Rightarrow> True)"

text \<open>
  The constructor of \<open>Circle\<close>: \<open>super(options)\<close>, then \<open>radius\<close> and
  \<open>rotationalInertia = (1 / 2) * this.mass * Math.pow(this.radius, 2)\<close>, the latter redefined
  by \<open>Object.defineProperty\<close> with a \<open>value\<close> only, so it stays read-only. Omitted options
  take the defaults of \<open>Body\<close>.
\<close>

record Options =
  position_opt :: "Vector option"
  angle_opt :: "real option"
  velocity_opt :: "Vector option"
  angularVelocity_opt :: "real option"
  mass_opt :: "real option"
  force_opt :: "Vector option"
  torque_opt :: "real option"
  isStatic_opt :: "bool option"
  radius_opt :: real

definition default :: "'a \<Rightarrow> 'a option \<Rightarrow> 'a" where
  "default d v = (case v of None \<Rightarrow> d | Some w \<Rightarrow> w)"

definition Circle_new :: "Options \<Rightarrow> Body" where
  "Circle_new options =
     (let static = default False (isStatic_opt options);
          m = (if static then Infinity else Fin (default 1 (mass_opt options)));
          r = radius_opt options
      in \<lparr> position = default (Vector 0 0) (position_opt options),
           angle = default 0 (angle_opt options),
           velocity = default (Vector 0 0) (velocity_opt options),
           angularVelocity = default 0 (angularVelocity_opt options),
           acceleration = Vector 0 0,
           angularAcceleration = 0,
           mass = m,
           force = default (Vector 0 0) (force_opt options),
           torque = default 0 (torque_opt options),
           isStatic = static,
           rotationalInertia =
             (case m of Fin k \<Rightarrow> Fin ((1 / 2) * k * r\<^sup>2)
              | Infinity \<Rightarrow> (if r = 0 then NaN else Infinity)
              | NaN \<Rightarrow> NaN),
           rotationalInertia_writable = False,
           world = None,
           shape = Circle r \<rparr>)"

section \<open>Methods of a body\<close>

text \<open>
  \<open>Body.translate\<close>: \<open>this.position = Vector.sum(this.position, translation)\<close>.
  \<open>Polygon.translate\<close> first adds the translation to every vertex and to the centroid.
\<close>

definition Body_translate :: "Body \<Rightarrow> Vector \<Rightarrow> Body" where
  "Body_translate b translation = b\<lparr>position := Vector_sum [position b, translation]\<rparr>"

definition translate :: "Body \<Rightarrow> Vector \<Rightarrow> Body" where
  "translate b translation =
     (case shape b of
        Circle r \<Rightarrow> Body_translate b translation
      | Polygon vertices centroid \<Rightarrow>
          Body_translate
            (b\<lparr>shape := Polygon (map (\<lambda>v. add v translation) vertices)
                                (add centroid translation)\<rparr>)
            translation)"

text \<open>
  \<open>Body.rotate\<close>:
  \<^verbatim>\<open>this.angle += angle;
  if (this.angle > Math.PI * 2) { this.angle %= Math.PI * 2; }
  else if (this.angle < 0) { this.angle = Math.PI * 2 + (this.angle % Math.PI * 2); }\<close>
  The operators \<open>%\<close> and \<open>*\<close> have the same precedence and associate to the left, so
  the last expression is \<open>(this.angle % Math.PI) * 2\<close>.
  \<open>Polygon.rotate\<close> first rotates every vertex and the centroid about the position.
\<close>

definition Body_rotate :: "Body \<Rightarrow> real \<Rightarrow> Body" where
  "Body_rotate b ang =
     (let b1 = b\<lparr>angle := angle b + ang\<rparr>
      in if angle b1 > pi * 2 then b1\<lparr>angle := js_rem (angle b1) (pi * 2)\<rparr>
         else if angle b1 < 0 then b1\<lparr>angle := pi * 2 + js_rem (angle b1) pi * 2\<rparr>
         else b1)"

definition rotate :: "Body \<Rightarrow> real \<Rightarrow> Body" where
  "rotate b ang =
     (case shape b of
        Circle r \<Rightarrow> Body_rotate b ang
      | Polygon vertices centroid \<Rightarrow>
          Body_rotate
            (b\<lparr>shape := Polygon (map (\<lambda>v. Vector_rotate v ang (position b)) vertices)
                                (Vector_rotate centroid ang (position b))\<rparr>)
            ang)"

text \<open>
  The setter of \<open>mass\<close>:
  \<^verbatim>\<open>if (this.rotationalInertia) this.rotationalInertia *= newMass / mass;
  mass = newMass;\<close>
  The code of a class is strict, so the assignment to the read-only \<open>rotationalInertia\<close>
  throws a \<open>TypeError\<close> and the setter is left before \<open>mass\<close> is assigned. The branch for a
  writable property is what the same statement does on a property that can be assigned.
\<close>

definition set_mass :: "Body \<Rightarrow> real \<Rightarrow> error + Body" where
  "set_mass b newMass =
     (if truthy (rotationalInertia b) then
        (if rotationalInertia_writable b then
           (case (rotationalInertia b, mass b) of
              (Fin i, Fin m) \<Rightarrow>
                (if m = 0 then Inl NonFinite
                 else Inr (b\<lparr>rotationalInertia := Fin (i * (newMass / m)), mass := Fin newMass\<rparr>))
            | (Fin i, Infinity) \<Rightarrow>
                Inr (b\<lparr>rotationalInertia := Fin (i * 0), mass := Fin newMass\<rparr>)
            | _ \<Rightarrow> Inl NonFinite)
         else Inl TypeError)
      else Inr (b\<lparr>mass := Fin newMass\<rparr>))"

section \<open>Collision detection\<close>

text \<open>The bounding box \<open>{x, y, w, h}\<close> of a circle and of a polygon.\<close>

datatype Box = Box (box_x: real) (box_y: real) (box_w: real) (box_h: real)

definition boundingBox :: "Body \<Rightarrow> error + Box" where
  "boundingBox b =
     (case shape b of
        Circle radius \<Rightarrow>
          Inr (Box (x (position b) - radius) (y (position b) - radius) (radius * 2) (radius * 2))
      | Polygon vertices centroid \<Rightarrow>
          (let xs = map x vertices; ys = map y vertices
           in bind (Math_min xs) (\<lambda>bx. bind (Math_min ys) (\<lambda>by.
              bind (Math_max xs) (\<lambda>mx. bind (Math_max ys) (\<lambda>my.
              Inr (Box bx by (mx - bx) (my - by))))))))"

definition detectBoxBox :: "Box \<Rightarrow> Box \<Rightarrow> bool" where
  "detectBoxBox bbA bbB =
     (if box_x bbA + box_w bbA > box_x bbB then
        (if box_x bbB + box_w bbB > box_x bbA then
           (if box_y bbA + box_h bbA > box_y bbB then box_y bbB + box_h bbB > box_y bbA
            else False)
         else False)
      else False)"

text \<open>
  \<open>detectCircleCircle\<close> returns \<open>false\<close> (here \<open>None\<close>) or the minimum-translation vector.
  It is only called with two circles; the radius of anything else is \<open>undefined\<close>.
\<close>

definition detectCircleCircle :: "Body \<Rightarrow> Body \<Rightarrow> error + Vector option" where
  "detectCircleCircle circleA circleB =
     (case (shape circleA, shape circleB) of
        (Circle radiusA, Circle radiusB) \<Rightarrow>
          (let diff = Vector_difference (position circleA) [position circleB];
               distance = magnitude diff;
               radiiAdded = radiusA + radiusB
           in if distance > radiiAdded then Inr None
              else bind (unit diff) (\<lambda>u. Inr (Some (multipliedBy u (radiiAdded - distance)))))
      | _ \<Rightarrow> Inl NonFinite)"

text \<open>
  The separating axis test. \<open>getSides\<close> closes the ring of vertices with the first vertex and
  pairs each vertex with its successor; \<open>getNormals\<close> turns each side by a quarter turn.
\<close>

definition getSides :: "Vector list \<Rightarrow> Line list" where
  "getSides vertices =
     (case vertices of
        [] \<Rightarrow> []
      | v0 # vs \<Rightarrow> (let closed = vertices @ [v0]
                    in map (\<lambda>(v, w). Line v w) (zip closed (tl closed))))"

definition getNormals :: "Line list \<Rightarrow> Vector list" where
  "getNormals sides =
     map (\<lambda>s. let axis = Vector_difference (pointB s) [pointA s]
              in Vector (- y axis) (x axis)) sides"

text \<open>
  \<open>circleAxes(circle, polygon)\<close> maps over \<open>polygon.vertices\<close>, which is \<open>undefined\<close> on a
  circle.
\<close>

definition circleAxes :: "Body \<Rightarrow> Body \<Rightarrow> error + Vector list" where
  "circleAxes circle polygon =
     (case shape polygon of
        Polygon vertices centroid \<Rightarrow>
          Inr (map (\<lambda>v. Vector_difference (position circle) [v]) vertices)
      | Circle r \<Rightarrow> Inl TypeError)"

definition axesOf :: "Body \<Rightarrow> Body \<Rightarrow> error + Vector list" where
  "axesOf body other =
     (case shape body of
        Polygon vertices centroid \<Rightarrow> traverse unit (getNormals (getSides vertices))
      | Circle r \<Rightarrow> bind (circleAxes body other) (traverse unit))"

definition getAxes :: "Body \<Rightarrow> Body \<Rightarrow> error + Vector list" where
  "getAxes bodyA bodyB =
     bind (axesOf bodyA bodyB) (\<lambda>axesA.
     bind (axesOf bodyB bodyA) (\<lambda>axesB. Inr (axesA @ axesB)))"

text \<open>The projection \<open>{min, max}\<close> of a body on an axis.\<close>

datatype Projection = Projection (min_p: real) (max_p: real)

definition projectPolygon :: "Body \<Rightarrow> Vector \<Rightarrow> error + Projection" where
  "projectPolygon polygon axis =
     (case shape polygon of
        Polygon vertices centroid \<Rightarrow>
          (let projections = map (\<lambda>v. Vector_dot [v, axis]) vertices
           in bind (Math_min projections) (\<lambda>mn.
              bind (Math_max projections) (\<lambda>mx. Inr (Projection mn mx))))
      | Circle r \<Rightarrow> Inl TypeError)"

definition projectCircle :: "Body \<Rightarrow> Vector \<Rightarrow> error + Projection" where
  "projectCircle circle axis =
     (case shape circle of
        Circle radius \<Rightarrow>
          Inr (Projection
                 (Vector_dot [Vector_difference (position circle) [multipliedBy axis radius], axis])
                 (Vector_dot [Vector_sum [position circle, multipliedBy axis radius], axis]))
      | Polygon vertices centroid \<Rightarrow> Inl NonFinite)"

text \<open>
  \<open>getPenetration\<close> returns \<open>{body, penetration}\<close>: the body in front on the axis, as the
  character \<open>'a'\<close> or \<open>'b'\<close>, and the overlap of the two projections, not below \<open>0\<close>.
\<close>

datatype Penetration = Penetration (body_tag: char) (penetration: real)

definition getPenetration :: "Body \<Rightarrow> Body \<Rightarrow> Vector \<Rightarrow> error + Penetration" where
  "getPenetration bodyA bodyB axis =
     bind (if is_Polygon bodyA then projectPolygon bodyA axis else projectCircle bodyA axis)
       (\<lambda>projectionsA.
     bind (if is_Polygon bodyB then projectPolygon bodyB axis else projectCircle bodyB axis)
       (\<lambda>projectionsB.
     if min_p projectionsA > min_p projectionsB
     then Inr (Penetration (CHR ''a'') (max (max_p projectionsB - min_p projectionsA) 0))
     else Inr (Penetration (CHR ''b'') (max (max_p projectionsA - min_p projectionsB) 0))))"

text \<open>
  The loop of \<open>separatingAxis\<close> that looks for the smallest penetration:
  \<^verbatim>\<open>let smallestPenetrationIndex = -1;
  let smallestPenetration = 10000000;
  for (let i = 0; i < penetrations.length; i++)
    if (penetrations[i] < smallestPenetration) { ... = penetrations[i]; ... = i; }\<close>
  The first argument is the rest of the list from index \<open>i\<close> on.
\<close>

fun smallest :: "real list \<Rightarrow> int \<Rightarrow> int \<Rightarrow> real \<Rightarrow> int \<times> real" where
  "smallest [] i smallestPenetrationIndex smallestPenetration =
     (smallestPenetrationIndex, smallestPenetration)"
| "smallest (p # ps) i smallestPenetrationIndex smallestPenetration =
     (if p < smallestPenetration then smallest ps (i + 1) i p
      else smallest ps (i + 1) smallestPenetrationIndex smallestPenetration)"

text \<open>\<open>multiply(scalar)\<close> changes the receiver in place.\<close>

definition multiply :: "Vector \<Rightarrow> real \<Rightarrow> Vector" where
  "multiply v scalar = Vector (x v * scalar) (y v * scalar)"

text \<open>
  \<open>separatingAxis\<close> throws when neither body is a polygon, returns \<open>false\<close> (here \<open>None\<close>)
  when some penetration is \<open>0\<close>, and otherwise builds the vector from
  \<open>axes[smallestPenetrationIndex]\<close>; with the index still \<open>-1\<close> that element is \<open>undefined\<close>
  and reading its \<open>x\<close> throws a \<open>TypeError\<close>.
\<close>

definition separatingAxis :: "Body \<Rightarrow> Body \<Rightarrow> error + Vector option" where
  "separatingAxis bodyA bodyB =
     (if \<not> (is_Polygon bodyA \<or> is_Polygon bodyB)
      then Inl (Error ''One of the bodies must be a polygon to use the SAT'')
      else
        bind (getAxes bodyA bodyB) (\<lambda>axes.
        bind (traverse (getPenetration bodyA bodyB) axes) (\<lambda>tmp.
          let bodies = map body_tag tmp;
              penetrations = map penetration tmp
          in if 0 \<in> set penetrations then Inr None
             else
               (let smallestPenetrationIndex = fst (smallest penetrations 0 (- 1) 10000000)
                in if smallestPenetrationIndex < 0 then Inl TypeError
                   else
                     bind (set_magnitude (axes ! nat smallestPenetrationIndex)
                                         (penetrations ! nat smallestPenetrationIndex))
                       (\<lambda>mtv. Inr (Some (if bodies ! nat smallestPenetrationIndex = CHR ''b''
                                          then multiply mtv (- 1) else mtv)))))))"

text \<open>
  \<open>detectCollision\<close>: the bounding boxes first, then the test for the pair of shapes. With
  the two shapes there are, one of the two branches is always taken.
\<close>

definition detectCollision :: "Body \<Rightarrow> Body \<Rightarrow> error + Vector option" where
  "detectCollision bodyA bodyB =
     bind (boundingBox bodyA) (\<lambda>bbA.
     bind (boundingBox bodyB) (\<lambda>bbB.
       if \<not> detectBoxBox bbA bbB then Inr None
       else if is_Circle bodyA \<and> is_Circle bodyB then detectCircleCircle bodyA bodyB
       else if is_Polygon bodyA \<or> is_Polygon bodyB then separatingAxis bodyA bodyB
       else Inr None))"

section \<open>Collision resolution\<close>

text \<open>
  \<open>getNewVelocities\<close>. \<open>mass_ratio mj mi\<close> is \<open>(2 * mj) / (mi + mj)\<close>: finite for finite masses
  with a sum other than \<open>0\<close>, \<open>0\<close> for a finite \<open>mj\<close> over an infinite \<open>mi\<close>, and \<open>NaN\<close>
  whenever \<open>mj\<close> is infinite. \<open>quotient\<close> is the division of two finite numbers. Each of the
  two velocities returned is a vector of finite numbers or not.
\<close>

definition mass_ratio :: "jsnum \<Rightarrow> jsnum \<Rightarrow> error + real" where
  "mass_ratio mj mi =
     (case (mj, mi) of
        (Fin b, Fin a) \<Rightarrow> (if a + b = 0 then Inl NonFinite else Inr ((2 * b) / (a + b)))
      | (Fin b, Infinity) \<Rightarrow> Inr 0
      | _ \<Rightarrow> Inl NonFinite)"

definition quotient :: "real \<Rightarrow> real \<Rightarrow> error + real" where
  "quotient a b = (if b = 0 then Inl NonFinite else Inr (a / b))"

definition getNewVelocities :: "Body \<Rightarrow> Body \<Rightarrow> (error + Vector) \<times> (error + Vector)" where
  "getNewVelocities bodyA bodyB =
     (let v1 = velocity bodyA; v2 = velocity bodyB;
          x1 = position bodyA; x2 = position bodyB;
          m1 = mass bodyA; m2 = mass bodyB;
          vDiff1 = Vector_difference v1 [v2];
          vDiff2 = multipliedBy vDiff1 (- 1);
          xDiff1 = Vector_difference x1 [x2];
          xDiff2 = multipliedBy xDiff1 (- 1);
          v1f = bind (mass_ratio m2 m1) (\<lambda>f1.
                bind (quotient (Vector_dot [vDiff1, xDiff1]) ((magnitude xDiff1)\<^sup>2)) (\<lambda>f2.
                Inr (Vector_difference v1 [multipliedBy xDiff1 (f1 * f2)])));
          v2f = bind (mass_ratio m1 m2) (\<lambda>f3.
                bind (quotient (Vector_dot [vDiff2, xDiff2]) ((magnitude xDiff2)\<^sup>2)) (\<lambda>f4.
                Inr (Vector_difference v2 [multipliedBy xDiff2 (f3 * f4)])))
      in (v1f, v2f))"

text \<open>
  \<open>resolveCollision\<close> returns nothing; the model returns the two bodies as they are after
  the call. The two velocities are assigned independently, so each of the two bodies is
  either a body of finite numbers or, when it has been assigned a velocity that is not
  finite, outside the model.
\<close>

definition resolveCollision :: "Body \<Rightarrow> Body \<Rightarrow> error + (error + Body) \<times> (error + Body)" where
  "resolveCollision bodyA bodyB =
     bind (detectCollision bodyA bodyB) (\<lambda>r.
       case r of
         None \<Rightarrow> Inr (Inr bodyA, Inr bodyB)
       | Some mtv \<Rightarrow>
           (let (a1, b1) = (if isStatic bodyA
                            then (bodyA, translate bodyB (multipliedBy mtv (- 1)))
                            else (translate bodyA mtv, bodyB));
                velocitiesAfter = getNewVelocities a1 b1
            in Inr (if \<not> isStatic a1
                    then bind (fst velocitiesAfter) (\<lambda>v. Inr (a1\<lparr>velocity := v\<rparr>))
                    else Inr a1,
                    if \<not> isStatic b1
                    then bind (snd velocitiesAfter) (\<lambda>v. Inr (b1\<lparr>velocity := v\<rparr>))
                    else Inr b1)))"

section \<open>Objects and references: the position of a body\<close>

text \<open>
  Who can change the position of a body depends on which references exist to the \<open>Vector\<close>
  object that holds it, so this part models objects in a store. A cell holds the fields
  \<open>x\<close> and \<open>y\<close> of one object (a \<open>Vector\<close> or a plain object); references below
  \<open>next_ref\<close> are in use.
\<close>

type_synonym ref = nat

record Store =
  cells :: "ref \<Rightarrow> Vector"
  next_ref :: ref

definition alloc :: "Store \<Rightarrow> Vector \<Rightarrow> ref \<times> Store" where
  "alloc s v = (next_ref s, s\<lparr>cells := (cells s)(next_ref s := v), next_ref := Suc (next_ref s)\<rparr>)"

text \<open>An assignment \<open>o.x = v\<close> or \<open>o.y = v\<close> to the object at a reference.\<close>

definition write_x :: "Store \<Rightarrow> ref \<Rightarrow> real \<Rightarrow> Store" where
  "write_x s r v = s\<lparr>cells := (cells s)(r := Vector v (y (cells s r)))\<rparr>"

definition write_y :: "Store \<Rightarrow> ref \<Rightarrow> real \<Rightarrow> Store" where
  "write_y s r v = s\<lparr>cells := (cells s)(r := Vector (x (cells s r)) v)\<rparr>"

text \<open>\<open>Vector.set(vector)\<close>: \<open>this.x = vector.x; this.y = vector.y\<close>\<close>

definition Vector_set :: "Store \<Rightarrow> ref \<Rightarrow> ref \<Rightarrow> Store" where
  "Vector_set s this vector = write_y (write_x s this (x (cells s vector))) this (y (cells s vector))"

text \<open>
  The constructor of \<open>Body\<close> builds \<open>defaults\<close> with a new \<open>Vector(0, 0)\<close>, merges the options
  over it and keeps \<open>settings.position\<close> in the variable \<open>position\<close>: the object the caller
  passed, when there is one, and no copy of it. The result is the reference held by that
  variable, which is never assigned again.
\<close>

definition Body_position :: "Store \<Rightarrow> ref option \<Rightarrow> ref \<times> Store" where
  "Body_position s options_position =
     (let (d, s1) = alloc s (Vector 0 0)
      in (case options_position of None \<Rightarrow> d | Some r \<Rightarrow> r, s1))"

text \<open>
  The accessors of \<open>position\<close>:
  \<^verbatim>\<open>get: () => Object.assign({}, position),
  set: newPos => position.set(newPos)\<close>
  and \<open>translate\<close>: \<open>this.position = Vector.sum(this.position, translation)\<close>, which reads
  through the getter, builds the sum as a new vector and assigns through the setter. The
  argument \<open>pos\<close> is the reference held by the variable \<open>position\<close> of the body.
\<close>

definition position_get :: "Store \<Rightarrow> ref \<Rightarrow> ref \<times> Store" where
  "position_get s pos = alloc s (cells s pos)"

definition position_set :: "Store \<Rightarrow> ref \<Rightarrow> ref \<Rightarrow> Store" where
  "position_set s pos newPos = Vector_set s pos newPos"

definition translate_store :: "Store \<Rightarrow> ref \<Rightarrow> ref \<Rightarrow> Store" where
  "translate_store s pos translation =
     (let (p, s1) = position_get s pos;
          (t, s2) = alloc s1 (Vector_sum [cells s1 p, cells s1 translation])
      in position_set s2 pos t)"

text \<open>
  What a client of a body can do that touches such objects: read the position, assign to
  a field of an object it holds, call \<open>translate\<close>, assign a position.
\<close>

datatype Action =
    ReadPosition
  | WriteX ref real
  | WriteY ref real
  | Translate ref
  | AssignPosition ref

fun exec :: "ref \<Rightarrow> Action \<Rightarrow> Store \<Rightarrow> Store" where
  "exec pos ReadPosition s = snd (position_get s pos)"
| "exec pos (WriteX r v) s = write_x s r v"
| "exec pos (WriteY r v) s = write_y s r v"
| "exec pos (Translate t) s = translate_store s pos t"
| "exec pos (AssignPosition n) s = position_set s pos n"

fun changes_position_by_api :: "Action \<Rightarrow> bool" where
  "changes_position_by_api (Translate t) = True"
| "changes_position_by_api (AssignPosition n) = True"
| "changes_position_by_api a = False"

fun writes_to :: "ref \<Rightarrow> Action \<Rightarrow> bool" where
  "writes_to r (WriteX q v) = (q = r)"
| "writes_to r (WriteY q v) = (q = r)"
| "writes_to r a = False"

section \<open>Objects and references: the integrator\<close>

text \<open>
  \<open>update()\<close> changes the \<open>Vector\<close> objects of a body in place, and the constructor keeps
  the objects it was given, so what a step does depends on which of these objects are one
  and the same. A body is therefore modelled here as it lies in the store: the variables
  \<open>position\<close>, \<open>velocity\<close>, \<open>acceleration\<close> and \<open>force\<close> of the constructor hold
  references, the other variables hold numbers. This is the object that \<open>Body\<close> and
  \<open>Circle\<close> build, with \<open>translate\<close> and \<open>rotate\<close> of \<open>Body\<close> (the class \<open>Polygon\<close> kept in
  the repository is written against an older \<open>Body\<close>: it passes \<open>x, y, options\<close> to
  \<open>super\<close> and assigns \<open>rotationalInertia\<close>).

  The angle, the angular velocity and the angular acceleration are only added to and
  compared, so for them it is enough to know whether a value is a finite number or not
  (\<open>NaN\<close> or an infinity of either sign): the sum of two numbers is finite exactly when
  both are.
\<close>

datatype number = Number real | NotFinite

definition number_add :: "number \<Rightarrow> number \<Rightarrow> number" where
  "number_add a b =
     (case a of
        Number r \<Rightarrow> (case b of Number q \<Rightarrow> Number (r + q) | NotFinite \<Rightarrow> NotFinite)
      | NotFinite \<Rightarrow> NotFinite)"

text \<open>
  \<open>torque / rotationalInertia\<close> for a finite torque: not finite over \<open>0\<close> and over \<open>NaN\<close>,
  and \<open>0\<close> over \<open>Infinity\<close>.
\<close>

definition number_divide :: "real \<Rightarrow> jsnum \<Rightarrow> number" where
  "number_divide t i =
     (case i of
        Fin r \<Rightarrow> (if r = 0 then NotFinite else Number (t / r))
      | Infinity \<Rightarrow> Number 0
      | NaN \<Rightarrow> NotFinite)"

text \<open>
  A world as an object: \<open>gravity\<close> and \<open>force\<close> hold \<open>Vector\<close> objects. The constructor
  builds \<open>defaults\<close> with two new vectors and merges the options over them.
\<close>

datatype WorldObject = WorldObject (gravity_ref: ref) (world_force_ref: ref)

record WorldOptions =
  gravity_arg :: "ref option"
  world_force_arg :: "ref option"

definition World_new :: "Store \<Rightarrow> WorldOptions \<Rightarrow> WorldObject \<times> Store" where
  "World_new s opts =
     (let (g, s1) = alloc s (Vector 0 0);
          (f, s2) = alloc s1 (Vector 0 0)
      in (WorldObject (default g (gravity_arg opts)) (default f (world_force_arg opts)), s2))"

record BodyObject =
  position_var :: ref
  angle_var :: number
  velocity_var :: ref
  angularVelocity_var :: number
  acceleration_var :: ref
  angularAcceleration_var :: number
  mass_var :: jsnum
  force_var :: ref
  torque_var :: real
  isStatic_var :: bool
  rotationalInertia_prop :: jsnum
  world_prop :: "WorldObject option"

text \<open>
  The constructor of \<open>Circle\<close> on the store. \<open>defaults\<close> is built first, with a new
  \<open>Vector(0, 0)\<close> for \<open>position\<close>, \<open>velocity\<close> and \<open>force\<close> in this order; the variables
  then take \<open>settings.position\<close>, \<open>settings.velocity\<close> and \<open>settings.force\<close>, which are the
  caller's objects where the options name them; \<open>acceleration\<close> is a new \<open>Vector(0, 0)\<close>.
\<close>

record ObjectOptions =
  position_arg :: "ref option"
  angle_arg :: "real option"
  velocity_arg :: "ref option"
  angularVelocity_arg :: "real option"
  mass_arg :: "real option"
  force_arg :: "ref option"
  torque_arg :: "real option"
  isStatic_arg :: "bool option"
  radius_arg :: real

definition Circle_object :: "Store \<Rightarrow> ObjectOptions \<Rightarrow> BodyObject \<times> Store" where
  "Circle_object s opts =
     (let (p, s1) = alloc s (Vector 0 0);
          (v, s2) = alloc s1 (Vector 0 0);
          (f, s3) = alloc s2 (Vector 0 0);
          (a, s4) = alloc s3 (Vector 0 0);
          static = default False (isStatic_arg opts);
          m = (if static then Infinity else Fin (default 1 (mass_arg opts)));
          r = radius_arg opts
      in (\<lparr> position_var = default p (position_arg opts),
            angle_var = Number (default 0 (angle_arg opts)),
            velocity_var = default v (velocity_arg opts),
            angularVelocity_var = Number (default 0 (angularVelocity_arg opts)),
            acceleration_var = a,
            angularAcceleration_var = Number 0,
            mass_var = m,
            force_var = default f (force_arg opts),
            torque_var = default 0 (torque_arg opts),
            isStatic_var = static,
            rotationalInertia_prop =
              (case m of Fin k \<Rightarrow> Fin ((1 / 2) * k * r\<^sup>2)
               | Infinity \<Rightarrow> (if r = 0 then NaN else Infinity)
               | NaN \<Rightarrow> NaN),
            world_prop = None \<rparr>, s4))"

text \<open>\<open>World.addBody(body)\<close> stamps the back-reference.\<close>

definition addBody :: "WorldObject \<Rightarrow> BodyObject \<Rightarrow> BodyObject" where
  "addBody w b = b\<lparr>world_prop := Some w\<rparr>"

text \<open>\<open>Vector.add(vector)\<close>: \<open>this.x += vector.x; this.y += vector.y\<close>, in place.\<close>

definition Vector_add :: "Store \<Rightarrow> ref \<Rightarrow> ref \<Rightarrow> Store" where
  "Vector_add s this vector =
     (let s1 = write_x s this (x (cells s this) + x (cells s vector))
      in write_y s1 this (y (cells s1 this) + y (cells s1 vector)))"

text \<open>
  The six steps of \<open>update()\<close>. \<open>updateAcceleration\<close> returns at once for a static body;
  otherwise it reads \<open>this.world.gravity\<close> (a \<open>TypeError\<close> when the body is in no world,
  raised before anything is changed) and assigns
  \<open>Vector.sum(gravity.multipliedBy(mass), world.force, force).dividedBy(mass)\<close>
  through the setter, \<open>acceleration.set(newAcc)\<close>. \<open>multipliedBy\<close>, \<open>Vector.sum\<close> and
  \<open>dividedBy\<close> each build a new vector. The quotient is finite exactly when the mass is
  finite and not zero; otherwise the acceleration, and after it the velocity and the
  position, are no longer finite.
\<close>

definition updateAcceleration :: "Store \<Rightarrow> BodyObject \<Rightarrow> error + Store" where
  "updateAcceleration s b =
     (if isStatic_var b then Inr s
      else case world_prop b of
             None \<Rightarrow> Inl TypeError
           | Some w \<Rightarrow>
               (case mass_var b of
                  Fin m \<Rightarrow>
                    (let (weight, s1) = alloc s (multipliedBy (cells s (gravity_ref w)) m);
                         (total, s2) = alloc s1 (Vector_sum [cells s1 weight,
                                                             cells s1 (world_force_ref w),
                                                             cells s1 (force_var b)])
                     in bind (dividedBy (cells s2 total) m)
                          (\<lambda>a. let (newAcc, s3) = alloc s2 a
                                in Inr (Vector_set s3 (acceleration_var b) newAcc)))
                | Infinity \<Rightarrow> Inl NonFinite
                | NaN \<Rightarrow> Inl NonFinite))"

text \<open>
  \<open>updateVelocity\<close>: \<open>this.velocity.add(this.acceleration)\<close>; both getters return the
  object itself. \<open>updatePosition\<close>: \<open>this.translate(this.velocity)\<close>.
\<close>

definition updateVelocity :: "Store \<Rightarrow> BodyObject \<Rightarrow> Store" where
  "updateVelocity s b = Vector_add s (velocity_var b) (acceleration_var b)"

definition updatePosition :: "Store \<Rightarrow> BodyObject \<Rightarrow> Store" where
  "updatePosition s b = translate_store s (position_var b) (velocity_var b)"

text \<open>
  \<open>updateAngularAcceleration\<close>: \<open>this.torque / this.rotationalInertia\<close> unless static.
  \<open>updateAngularVelocity\<close>: \<open>this.angularVelocity += this.angularAcceleration\<close>.
  \<open>updateAngle\<close>: \<open>this.rotate(this.angularVelocity)\<close>, with \<open>Body.rotate\<close> as above; an
  angle that is not finite after the addition is \<open>NaN\<close> at the end (both comparisons are
  false on \<open>NaN\<close>, and the remainder of an infinity is \<open>NaN\<close>).
\<close>

definition updateAngularAcceleration :: "BodyObject \<Rightarrow> BodyObject" where
  "updateAngularAcceleration b =
     (if isStatic_var b then b
      else b\<lparr>angularAcceleration_var := number_divide (torque_var b) (rotationalInertia_prop b)\<rparr>)"

definition updateAngularVelocity :: "BodyObject \<Rightarrow> BodyObject" where
  "updateAngularVelocity b =
     b\<lparr>angularVelocity_var := number_add (angularVelocity_var b) (angularAcceleration_var b)\<rparr>"

definition rotate_object :: "BodyObject \<Rightarrow> number \<Rightarrow> BodyObject" where
  "rotate_object b ang =
     (case number_add (angle_var b) ang of
        Number a \<Rightarrow>
          (if a > pi * 2 then b\<lparr>angle_var := Number (js_rem a (pi * 2))\<rparr>
           else if a < 0 then b\<lparr>angle_var := Number (pi * 2 + js_rem a pi * 2)\<rparr>
           else b\<lparr>angle_var := Number a\<rparr>)
      | NotFinite \<Rightarrow> b\<lparr>angle_var := NotFinite\<rparr>)"

definition updateAngle :: "BodyObject \<Rightarrow> BodyObject" where
  "updateAngle b = rotate_object b (angularVelocity_var b)"

definition update :: "Store \<Rightarrow> BodyObject \<Rightarrow> error + BodyObject \<times> Store" where
  "update s b =
     bind (updateAcceleration s b) (\<lambda>s1.
       let s2 = updateVelocity s1 b;
           s3 = updatePosition s2 b;
           b1 = updateAngularAcceleration b;
           b2 = updateAngularVelocity b1;
           b3 = updateAngle b2
       in Inr (b3, s3))"

text \<open>\<open>N\<close> calls of \<open>update()\<close> in a row.\<close>

fun updates :: "nat \<Rightarrow> BodyObject \<times> Store \<Rightarrow> error + BodyObject \<times> Store" where
  "updates 0 bs = Inr bs"
| "updates (Suc n) bs = bind (update (snd bs) (fst bs)) (updates n)"

text \<open>
  What the getters \<open>body.velocity\<close> and \<open>body.position\<close> read: the fields of the object
  held by the variable (the getter of the position hands out a copy of them).
\<close>

definition velocity_of :: "BodyObject \<times> Store \<Rightarrow> Vector" where
  "velocity_of bs = cells (snd bs) (velocity_var (fst bs))"

definition position_of :: "BodyObject \<times> Store \<Rightarrow> Vector" where
  "position_of bs = cells (snd bs) (position_var (fst bs))"

text \<open>
  The body shares none of the objects that \<open>update()\<close> writes to: its position, its
  velocity and its acceleration are three different objects, and none of them is the
  force of the body, the gravity of the world or the force of the world. All six are
  objects of the store.
\<close>

definition unshared :: "Store \<Rightarrow> BodyObject \<Rightarrow> WorldObject \<Rightarrow> bool" where
  "unshared s b w \<longleftrightarrow>
     position_var b < next_ref s \<and> velocity_var b < next_ref s
     \<and> acceleration_var b < next_ref s \<and> force_var b < next_ref s
     \<and> gravity_ref w < next_ref s \<and> world_force_ref w < next_ref s
     \<and> position_var b \<notin> {velocity_var b, acceleration_var b, force_var b,
                            gravity_ref w, world_force_ref w}
     \<and> velocity_var b \<notin> {acceleration_var b, force_var b, gravity_ref w, world_force_ref w}
     \<and> acceleration_var b \<notin> {force_var b, gravity_ref w, world_force_ref w}"


section \<open>Bodies used in the examples\<close>

text \<open>The options \<open>{position: p, radius: r}\<close> of a circle; everything else is left out.\<close>

definition circle_options :: "Vector \<Rightarrow> real \<Rightarrow> Options" where
  "circle_options p r =
     \<lparr> position_opt = Some p, angle_opt = None, velocity_opt = None,
       angularVelocity_opt = None, mass_opt = None, force_opt = None, torque_opt = None,
       isStatic_opt = None, radius_opt = r \<rparr>"

text \<open>
  A polygon body in the shape of a square with sides parallel to the coordinate axes, one
  corner at \<open>(a, b)\<close> and side \<open>l\<close>. The vertices are in the order in which the constructor
  of \<open>Polygon\<close> keeps them (sorted by their angle about the centroid); position and
  centroid are the centre, the rotational inertia is half the mass times the square of
  the mean distance of the vertices from the centre, and the remaining fields have the
  defaults of \<open>Body\<close>.
\<close>

definition square :: "real \<Rightarrow> real \<Rightarrow> real \<Rightarrow> Body" where
  "square a b l =
     \<lparr> position = Vector (a + l / 2) (b + l / 2), angle = 0, velocity = Vector 0 0,
       angularVelocity = 0, acceleration = Vector 0 0, angularAcceleration = 0,
       mass = Fin 1, force = Vector 0 0, torque = 0, isStatic = False,
       rotationalInertia = Fin (l\<^sup>2 / 4), rotationalInertia_writable = False,
       world = None,
       shape = Polygon [Vector (a + l) b, Vector a b, Vector a (b + l), Vector (a + l) (b + l)]
                       (Vector (a + l / 2) (b + l / 2)) \<rparr>"

text \<open>
  A polygon body in the shape of a right triangle with legs \<open>3\<close> and \<open>4\<close> along the
  coordinate axes and the right angle at \<open>(a, b)\<close>, set up like the square.
\<close>

definition triangle :: "real \<Rightarrow> real \<Rightarrow> Body" where
  "triangle a b =
     \<lparr> position = Vector (a + 1) (b + 4 / 3), angle = 0, velocity = Vector 0 0,
       angularVelocity = 0, acceleration = Vector 0 0, angularAcceleration = 0,
       mass = Fin 1, force = Vector 0 0, torque = 0, isStatic = False,
       rotationalInertia = Fin (1 / 2 * 1 * ((2 * sqrt 13 + 5 + sqrt 73) / 9)\<^sup>2),
       rotationalInertia_writable = False,
       world = None,
       shape = Polygon [Vector (a + 3) b, Vector a b, Vector a (b + 4)]
                       (Vector (a + 1) (b + 4 / 3)) \<rparr>"

text \<open>A circle with a position, a velocity, a mass and a radius.\<close>

definition ball :: "Vector \<Rightarrow> Vector \<Rightarrow> real \<Rightarrow> real \<Rightarrow> Body" where
  "ball p v m r = Circle_new ((circle_options p r)\<lparr>velocity_opt := Some v, mass_opt := Some m\<rparr>)"

text \<open>
  A store with nothing in it; the store after the caller has run \<open>let v = new Vector(1, 2)\<close>,
  where \<open>v\<close> is reference \<open>0\<close>; and the store after \<open>new Circle({position: v, radius: 1})\<close>.
\<close>

definition empty_store :: Store where
  "empty_store = \<lparr> cells = (\<lambda>r. Vector 0 0), next_ref = 0 \<rparr>"

definition caller_store :: Store where
  "caller_store = snd (alloc empty_store (Vector 1 2))"

definition body_store :: Store where
  "body_store = snd (Body_position caller_store (Some 0))"

text \<open>
  The store after
  \<^verbatim>\<open>let g = new Vector(0, 2); let world = new World({gravity: g});\<close>
  with the world; then a circle built by \<open>new Circle({radius: r})\<close> and put into that world
  by \<open>world.addBody(circle)\<close>; and a circle built by
  \<^verbatim>\<open>let z = new Vector(0, 0); let circle = new Circle({position: z, velocity: z, radius: 5});\<close>
  and put into that world, whose position and velocity are one object.
\<close>

definition radius_only :: "real \<Rightarrow> ObjectOptions" where
  "radius_only r =
     \<lparr> position_arg = None, angle_arg = None, velocity_arg = None,
       angularVelocity_arg = None, mass_arg = None, force_arg = None, torque_arg = None,
       isStatic_arg = None, radius_arg = r \<rparr>"

definition falling_world :: "WorldObject \<times> Store" where
  "falling_world =
     (let (g, s1) = alloc empty_store (Vector 0 2)
      in World_new s1 \<lparr> gravity_arg = Some g, world_force_arg = None \<rparr>)"

definition falling_circle :: "real \<Rightarrow> BodyObject \<times> Store" where
  "falling_circle r =
     (let (w, s) = falling_world;
          (b, s1) = Circle_object s (radius_only r)
      in (addBody w b, s1))"

definition shared_circle :: "BodyObject \<times> Store" where
  "shared_circle =
     (let (w, s) = falling_world;
          (z, s1) = alloc s (Vector 0 0);
          (b, s2) = Circle_object s1 ((radius_only 5)\<lparr>position_arg := Some z, velocity_arg := Some z\<rparr>)
      in (addBody w b, s2))"


section \<open>Basic facts\<close>

lemma Vector_sum2: "Vector_sum [a, b] = Vector (x a + x b) (y a + y b)"
  by (simp add: Vector_sum_def)

lemma Vector_sum3: "Vector_sum [a, b, c] = Vector (x a + x b + x c) (y a + y b + y c)"
  by (simp add: Vector_sum_def)

lemma Vector_difference1: "Vector_difference a [b] = Vector (x a - x b) (y a - y b)"
  by (simp add: Vector_difference_def)

lemma Vector_dot2: "Vector_dot [a, b] = x a * x b + y a * y b"
  by (simp add: Vector_dot_def)

lemma magnitude_sq: "(magnitude v)\<^sup>2 = (x v)\<^sup>2 + (y v)\<^sup>2"
  by (simp add: magnitude_def)

lemma magnitude_zero_iff: "magnitude v = 0 \<longleftrightarrow> v = Vector 0 0"
  by (cases v) (simp add: magnitude_def)

lemma magnitude_x_axis [simp]: "magnitude (Vector a 0) = \<bar>a\<bar>"
  by (simp add: magnitude_def)

lemma magnitude_y_axis [simp]: "magnitude (Vector 0 a) = \<bar>a\<bar>"
  by (simp add: magnitude_def)

lemma is_Polygon_square [simp]: "is_Polygon (square a b l)"
  by (simp add: is_Polygon_def square_def)

lemma is_Circle_Circle_new [simp]: "is_Circle (Circle_new opts)"
  by (simp add: is_Circle_def Circle_new_def Let_def)

lemma not_Polygon_iff_Circle: "\<not> is_Polygon b \<longleftrightarrow> is_Circle b"
  by (simp add: is_Polygon_def is_Circle_def split: Shape.split)

lemma magnitude_nonneg: "0 \<le> magnitude v"
  by (simp add: magnitude_def)

lemma magnitude_multipliedBy: "magnitude (multipliedBy v k) = magnitude v * \<bar>k\<bar>"
proof -
  have "(x v * k)\<^sup>2 + (y v * k)\<^sup>2 = ((x v)\<^sup>2 + (y v)\<^sup>2) * k\<^sup>2"
    by (simp add: power_mult_distrib distrib_right)
  then show ?thesis
    by (simp add: magnitude_def multipliedBy_def real_sqrt_mult)
qed

lemma Vector_eq_iff: "v = w \<longleftrightarrow> x v = x w \<and> y v = y w"
  by (cases v, cases w) simp

lemma difference_zero_iff: "magnitude (Vector_difference a [b]) = 0 \<longleftrightarrow> a = b"
  by (simp add: magnitude_zero_iff Vector_difference1 Vector_eq_iff)

lemma Vector_dot_inverse:
  "Vector_dot [multipliedBy u (- 1), multipliedBy w (- 1)] = Vector_dot [u, w]"
  by (simp add: Vector_dot2 multipliedBy_def)

lemma magnitude_inverse: "magnitude (multipliedBy u (- 1)) = magnitude u"
  by (simp add: magnitude_multipliedBy)

lemma unit_Inr: "magnitude v \<noteq> 0 \<Longrightarrow> unit v = Inr (multipliedBy v (1 / magnitude v))"
  by (simp add: unit_def multipliedBy_def)

lemma magnitude_scaled:
  assumes "magnitude v \<noteq> 0" and "0 \<le> k"
  shows "magnitude (multipliedBy (multipliedBy v (1 / magnitude v)) k) = k"
  using assms magnitude_nonneg [of v] by (simp add: magnitude_multipliedBy)

lemma bind_Inr_iff: "bind m f = Inr r \<longleftrightarrow> (\<exists>v. m = Inr v \<and> f v = Inr r)"
  by (cases m) simp_all

text \<open>What \<open>translate\<close> leaves alone.\<close>

lemma translate_frame:
  "position (translate b t) = Vector_sum [position b, t]" "velocity (translate b t) = velocity b"
  "isStatic (translate b t) = isStatic b" "mass (translate b t) = mass b"
  "world (translate b t) = world b" "force (translate b t) = force b"
  "rotationalInertia (translate b t) = rotationalInertia b"
  "torque (translate b t) = torque b"
  by (simp_all add: translate_def Body_translate_def split: Shape.split)

section \<open>Rotation of a body\<close>

lemma ceiling_minus_half: "\<lceil>- (1 / 2) :: real\<rceil> = 0"
  by (rule ceiling_unique) simp_all

lemma two_pi_not_below: "\<not> pi * 2 < - (pi / 2)"
  using pi_gt_zero by linarith

text \<open>
  Claim C2 says that after \<open>rotate\<close> the angle of a body lies in \<open>[0, 2\<pi>)\<close>, an angle
  below \<open>0\<close> being wrapped to \<open>2\<pi> + (angle mod 2\<pi>)\<close>. The code does not achieve this. A
  circle at angle \<open>0\<close> rotated by \<open>2\<pi>\<close> stays at \<open>2\<pi>\<close>, since the test is \<open>angle > 2\<pi>\<close>;
  rotated by \<open>-\<pi>\<close> it ends at \<open>2\<pi>\<close> as well; and rotated by \<open>-\<pi>/2\<close> it ends at \<open>\<pi>\<close>
  instead of \<open>3\<pi>/2\<close>, since \<open>angle % Math.PI * 2\<close> takes the remainder by \<open>\<pi>\<close> and then
  doubles it.
\<close>

theorem rotate_outside_range:
  "angle (rotate (Circle_new (circle_options (Vector 0 0) 5)) (2 * pi)) = 2 * pi
   \<and> \<not> angle (rotate (Circle_new (circle_options (Vector 0 0) 5)) (2 * pi)) < 2 * pi
   \<and> angle (rotate (Circle_new (circle_options (Vector 0 0) 5)) (- pi)) = 2 * pi
   \<and> angle (rotate (Circle_new (circle_options (Vector 0 0) 5)) (- pi / 2)) = pi"
  by (simp add: rotate_def Body_rotate_def Circle_new_def circle_options_def default_def Let_def
      js_rem_def trunc_def ceiling_minus_half two_pi_not_below)

section \<open>Touching circles\<close>

text \<open>
  Claim C8: for two circles of radius \<open>5\<close> with centres \<open>(0, 0)\<close> and \<open>(10, 0)\<close>, which touch
  in one point, \<open>detectCollision\<close> returns \<open>false\<close>: it neither throws nor returns a vector.
  The bounding boxes already fail the strict test \<open>-5 + 10 > 5\<close>.
\<close>

theorem detectCollision_touching_circles:
  "detectCollision (Circle_new (circle_options (Vector 0 0) 5)) (Circle_new (circle_options (Vector 10 0) 5))
     = Inr None"
  by (simp add: detectCollision_def boundingBox_def Circle_new_def circle_options_def default_def
      detectBoxBox_def)

text \<open>
  Without the bounding boxes the same pair is not rejected: \<open>detectCircleCircle\<close> tests
  \<open>distance > radiiAdded\<close> and returns a vector of length \<open>0\<close>.
\<close>

lemma detectCircleCircle_touching_circles:
  "detectCircleCircle (Circle_new (circle_options (Vector 0 0) 5)) (Circle_new (circle_options (Vector 10 0) 5))
     = Inr (Some (Vector 0 0))"
  by (simp add: detectCircleCircle_def Circle_new_def circle_options_def default_def
      Vector_difference_def magnitude_def unit_def multipliedBy_def)

section \<open>The setter of the mass\<close>

text \<open>
  Claim C9 says that assigning a new mass rescales the rotational inertia by the ratio of
  the new mass to the old one. On a circle built with mass \<open>2\<close> and radius \<open>1\<close>, whose
  rotational inertia is \<open>1\<close>, the assignment \<open>mass = 4\<close> throws a \<open>TypeError\<close> instead: the
  property \<open>rotationalInertia\<close> is read-only, so neither it nor the mass changes.
\<close>

theorem set_mass_circle_throws:
  "rotationalInertia (Circle_new ((circle_options (Vector 0 0) 1)\<lparr>mass_opt := Some 2\<rparr>)) = Fin 1
   \<and> set_mass (Circle_new ((circle_options (Vector 0 0) 1)\<lparr>mass_opt := Some 2\<rparr>)) 4 = Inl TypeError"
  by (simp add: set_mass_def Circle_new_def circle_options_def default_def Let_def)

text \<open>
  Every circle has the property read-only, and on a body where it could be assigned the
  same setter would rescale it as the claim says.
\<close>

lemma Circle_new_read_only: "\<not> rotationalInertia_writable (Circle_new opts)"
  by (simp add: Circle_new_def Let_def)

lemma set_mass_writable:
  assumes "rotationalInertia_writable b" and "rotationalInertia b = Fin i" and "i \<noteq> 0"
    and "mass b = Fin m" and "m \<noteq> 0"
  shows "set_mass b newMass = Inr (b\<lparr>rotationalInertia := Fin (i * (newMass / m)), mass := Fin newMass\<rparr>)"
  using assms by (simp add: set_mass_def)

section \<open>Resolution and static bodies\<close>

text \<open>
  Claim C5 says that \<open>resolveCollision\<close> never changes the position or the velocity of a
  static body. With two static circles of radius \<open>5\<close> at \<open>(0, 0)\<close> and \<open>(8, 0)\<close> the code
  moves the second one to \<open>(10, 0)\<close>: the first body is static, so the inverse of the
  vector is applied to the second, whose own flag is not looked at.
\<close>

theorem resolveCollision_moves_static_body:
  "isStatic (Circle_new ((circle_options (Vector 8 0) 5)\<lparr>isStatic_opt := Some True\<rparr>))
   \<and> position (Circle_new ((circle_options (Vector 8 0) 5)\<lparr>isStatic_opt := Some True\<rparr>)) = Vector 8 0
   \<and> resolveCollision (Circle_new ((circle_options (Vector 0 0) 5)\<lparr>isStatic_opt := Some True\<rparr>))
                       (Circle_new ((circle_options (Vector 8 0) 5)\<lparr>isStatic_opt := Some True\<rparr>))
      = Inr (Inr (Circle_new ((circle_options (Vector 0 0) 5)\<lparr>isStatic_opt := Some True\<rparr>)),
             Inr ((Circle_new ((circle_options (Vector 8 0) 5)\<lparr>isStatic_opt := Some True\<rparr>))
                    \<lparr>position := Vector 10 0\<rparr>))"
  by (simp add: resolveCollision_def detectCollision_def boundingBox_def detectBoxBox_def
      is_Circle_def detectCircleCircle_def Circle_new_def circle_options_def default_def
      Vector_difference_def unit_def multipliedBy_def translate_def Body_translate_def
      Vector_sum_def getNewVelocities_def Let_def)

text \<open>
  That is the only way: a static first body is never changed, a static second body is not
  changed when the first body is not static, and its velocity is never changed.
\<close>

lemma resolveCollision_static_kept:
  assumes "resolveCollision bodyA bodyB = Inr (ra, rb)"
  shows "(isStatic bodyA \<longrightarrow> ra = Inr bodyA)
       \<and> (isStatic bodyB \<and> \<not> isStatic bodyA \<longrightarrow> rb = Inr bodyB)
       \<and> (isStatic bodyB \<longrightarrow> (\<exists>b'. rb = Inr b' \<and> velocity b' = velocity bodyB))"
proof (cases "detectCollision bodyA bodyB")
  case (Inl e)
  with assms show ?thesis by (simp add: resolveCollision_def)
next
  case (Inr r)
  show ?thesis
  proof (cases r)
    case None
    with Inr assms show ?thesis by (auto simp: resolveCollision_def)
  next
    case (Some mtv)
    with Inr assms show ?thesis
      by (cases "isStatic bodyA"; cases "isStatic bodyB")
         (auto simp: resolveCollision_def translate_frame)
  qed
qed

text \<open>
  A body that is not static and collides with a static one is assigned a velocity that is
  not finite, since the mass of the static body is \<open>Infinity\<close>.
\<close>

lemma resolveCollision_with_static:
  "resolveCollision (Circle_new ((circle_options (Vector 0 0) 5)\<lparr>isStatic_opt := Some True\<rparr>))
                    (Circle_new (circle_options (Vector 8 0) 5))
     = Inr (Inr (Circle_new ((circle_options (Vector 0 0) 5)\<lparr>isStatic_opt := Some True\<rparr>)),
            Inl NonFinite)"
  by (simp add: resolveCollision_def detectCollision_def boundingBox_def detectBoxBox_def
      is_Circle_def detectCircleCircle_def Circle_new_def circle_options_def default_def
      Vector_difference_def unit_def multipliedBy_def translate_def Body_translate_def
      Vector_sum_def getNewVelocities_def mass_ratio_def Let_def)

section \<open>Two circles\<close>

text \<open>
  Claim C4 says that for every two circles whose bounding boxes overlap the detection
  reports no collision when the distance of the centres exceeds the sum of the radii, and
  otherwise returns the unit vector of \<open>centerA - centerB\<close> scaled to the sum of the radii
  minus the distance. Two circles of radius \<open>5\<close> with the same centre are in the second
  case, and there is no unit vector of their difference: the components the code computes
  are \<open>0 / 0\<close>.
\<close>

theorem detectCollision_same_centre_counterexample:
  "boundingBox (Circle_new (circle_options (Vector 0 0) 5)) = Inr (Box (- 5) (- 5) 10 10)
   \<and> detectBoxBox (Box (- 5) (- 5) 10 10) (Box (- 5) (- 5) 10 10)
   \<and> magnitude (Vector_difference (position (Circle_new (circle_options (Vector 0 0) 5)))
                                   [position (Circle_new (circle_options (Vector 0 0) 5))]) = 0
   \<and> unit (Vector_difference (position (Circle_new (circle_options (Vector 0 0) 5)))
                              [position (Circle_new (circle_options (Vector 0 0) 5))]) = Inl NonFinite
   \<and> detectCollision (Circle_new (circle_options (Vector 0 0) 5))
                     (Circle_new (circle_options (Vector 0 0) 5)) = Inl NonFinite"
  by (simp add: detectCollision_def boundingBox_def detectBoxBox_def detectCircleCircle_def
      Circle_new_def circle_options_def default_def Vector_difference_def unit_def
      is_Circle_def)

text \<open>
  Claim C4 as amended, for circles with distinct centres whose bounding boxes overlap: no
  collision when the distance of the centres exceeds the sum of the radii; otherwise the
  unit vector of \<open>centerA - centerB\<close> scaled to the sum of the radii minus the distance, a
  vector of that length. The vector is meant for body A: translating A by it puts the
  centres at a distance of exactly the sum of the radii.
\<close>

theorem detectCollision_circles:
  assumes sa: "shape circleA = Circle radiusA" and sb: "shape circleB = Circle radiusB"
    and bbA: "boundingBox circleA = Inr bbA" and bbB: "boundingBox circleB = Inr bbB"
    and box: "detectBoxBox bbA bbB"
  shows "(magnitude (Vector_difference (position circleA) [position circleB]) > radiusA + radiusB
            \<longrightarrow> detectCollision circleA circleB = Inr None)
       \<and> (magnitude (Vector_difference (position circleA) [position circleB]) \<le> radiusA + radiusB
            \<and> position circleA \<noteq> position circleB
            \<longrightarrow> (\<exists>u mtv. unit (Vector_difference (position circleA) [position circleB]) = Inr u
                  \<and> detectCollision circleA circleB = Inr (Some mtv)
                  \<and> mtv = multipliedBy u
                       (radiusA + radiusB
                        - magnitude (Vector_difference (position circleA) [position circleB]))
                  \<and> magnitude mtv = radiusA + radiusB
                        - magnitude (Vector_difference (position circleA) [position circleB])
                  \<and> magnitude (Vector_difference (position (translate circleA mtv))
                                                  [position circleB]) = radiusA + radiusB))"
proof -
  define d where "d = Vector_difference (position circleA) [position circleB]"
  define R where "R = radiusA + radiusB"
  have dc: "detectCollision circleA circleB = detectCircleCircle circleA circleB"
    using box by (simp add: detectCollision_def bbA bbB is_Circle_def sa sb)
  have cc: "detectCircleCircle circleA circleB =
        (if magnitude d > R then Inr None
         else bind (unit d) (\<lambda>u. Inr (Some (multipliedBy u (R - magnitude d)))))"
    by (simp add: detectCircleCircle_def sa sb Let_def d_def R_def)
  have far: "magnitude d > R \<longrightarrow> detectCollision circleA circleB = Inr None"
    by (simp add: dc cc)
  have near: "\<exists>u mtv. unit d = Inr u \<and> detectCollision circleA circleB = Inr (Some mtv)
        \<and> mtv = multipliedBy u (R - magnitude d) \<and> magnitude mtv = R - magnitude d
        \<and> magnitude (Vector_difference (position (translate circleA mtv)) [position circleB]) = R"
    if le: "magnitude d \<le> R" and ne: "position circleA \<noteq> position circleB"
  proof -
    have m0: "magnitude d \<noteq> 0"
      using ne by (simp add: d_def difference_zero_iff)
    then have mpos: "0 < magnitude d"
      using magnitude_nonneg [of d] by simp
    define u where "u = multipliedBy d (1 / magnitude d)"
    define mtv where "mtv = multipliedBy u (R - magnitude d)"
    have un: "unit d = Inr u" using m0 by (simp add: unit_Inr u_def)
    have res: "detectCollision circleA circleB = Inr (Some mtv)"
      using le by (simp add: dc cc un mtv_def)
    have mag: "magnitude mtv = R - magnitude d"
      unfolding mtv_def u_def using m0 le by (intro magnitude_scaled) simp_all
    have moved: "Vector_difference (position (translate circleA mtv)) [position circleB]
          = multipliedBy d (R / magnitude d)"
    proof -
      have k: "t + t * (1 / magnitude d) * (R - magnitude d) = t * (R / magnitude d)" for t :: real
        using m0 by (simp add: field_simps)
      show ?thesis
        using k [of "x d"] k [of "y d"]
        by (simp add: translate_def sa Body_translate_def Vector_sum2 Vector_difference1
            mtv_def u_def multipliedBy_def d_def algebra_simps)
    qed
    have "0 \<le> R"
      using mpos le by simp
    then have "magnitude (multipliedBy d (R / magnitude d)) = R"
      using mpos by (simp add: magnitude_multipliedBy)
    with moved un res mag show ?thesis unfolding mtv_def by auto
  qed
  show ?thesis using far near unfolding d_def R_def by blast
qed


lemma sqrt_128_gt_10: "10 < sqrt 128"
  by (rule real_less_rsqrt) simp

text \<open>
  The circles of the claim, radius \<open>5\<close> at \<open>(0, 0)\<close> and \<open>(8, 0)\<close>: the vector has length \<open>2\<close>
  and lies along the first coordinate axis. A third circle at \<open>(8, 8)\<close> has a bounding box
  that overlaps the first one, and is too far away.
\<close>

theorem detectCollision_circles_witness:
  "shape (Circle_new (circle_options (Vector 0 0) 5)) = Circle 5
   \<and> shape (Circle_new (circle_options (Vector 8 0) 5)) = Circle 5
   \<and> boundingBox (Circle_new (circle_options (Vector 0 0) 5)) = Inr (Box (- 5) (- 5) 10 10)
   \<and> boundingBox (Circle_new (circle_options (Vector 8 0) 5)) = Inr (Box 3 (- 5) 10 10)
   \<and> detectBoxBox (Box (- 5) (- 5) 10 10) (Box 3 (- 5) 10 10)
   \<and> position (Circle_new (circle_options (Vector 0 0) 5)) \<noteq> position (Circle_new (circle_options (Vector 8 0) 5))
   \<and> detectCollision (Circle_new (circle_options (Vector 0 0) 5)) (Circle_new (circle_options (Vector 8 0) 5))
       = Inr (Some (Vector (- 2) 0))
   \<and> magnitude (Vector (- 2) 0) = 2
   \<and> boundingBox (Circle_new (circle_options (Vector 8 8) 5)) = Inr (Box 3 3 10 10)
   \<and> detectBoxBox (Box (- 5) (- 5) 10 10) (Box 3 3 10 10)
   \<and> detectCollision (Circle_new (circle_options (Vector 0 0) 5)) (Circle_new (circle_options (Vector 8 8) 5))
       = Inr None"
proof -
  let ?A = "Circle_new (circle_options (Vector 0 0) 5)"
  let ?B = "Circle_new (circle_options (Vector 8 0) 5)"
  let ?C = "Circle_new (circle_options (Vector 8 8) 5)"
  have sa: "shape ?A = Circle 5" and sb: "shape ?B = Circle 5" and sc: "shape ?C = Circle 5"
    by (simp_all add: Circle_new_def circle_options_def default_def)
  have ba: "boundingBox ?A = Inr (Box (- 5) (- 5) 10 10)"
    and bb: "boundingBox ?B = Inr (Box 3 (- 5) 10 10)"
    and bc: "boundingBox ?C = Inr (Box 3 3 10 10)"
    by (simp_all add: boundingBox_def Circle_new_def circle_options_def default_def)
  have oab: "detectBoxBox (Box (- 5) (- 5) 10 10) (Box 3 (- 5) 10 10)"
    and oac: "detectBoxBox (Box (- 5) (- 5) 10 10) (Box 3 3 10 10)"
    by (simp_all add: detectBoxBox_def)
  have pa: "position ?A = Vector 0 0" and pb: "position ?B = Vector 8 0"
    and pc: "position ?C = Vector 8 8"
    by (simp_all add: Circle_new_def circle_options_def default_def)
  have near: "detectCollision ?A ?B = Inr (Some (Vector (- 2) 0))"
    using detectCollision_circles [OF sa sb ba bb oab]
    by (simp add: pa pb Vector_difference1 unit_def multipliedBy_def)
  have far: "detectCollision ?A ?C = Inr None"
    using detectCollision_circles [OF sa sc ba bc oac] sqrt_128_gt_10
    by (simp add: pa pc Vector_difference1 magnitude_def)
  show ?thesis
    using sa sb ba bb bc oab oac near far by (simp add: pa pb)
qed

section \<open>The velocities after a collision\<close>

lemma elastic_alg:
  fixes a1 a2 b1 b2 d1 d2 m1 m2 :: real
  assumes D: "d1\<^sup>2 + d2\<^sup>2 \<noteq> 0" and M: "m1 + m2 \<noteq> 0"
  defines "c \<equiv> ((a1 - b1) * d1 + (a2 - b2) * d2) / (d1\<^sup>2 + d2\<^sup>2)"
  defines "p \<equiv> 2 * m2 / (m1 + m2) * c" and "q \<equiv> 2 * m1 / (m1 + m2) * c"
  shows "m1 * ((a1 - d1 * p)\<^sup>2 + (a2 - d2 * p)\<^sup>2) + m2 * ((b1 + d1 * q)\<^sup>2 + (b2 + d2 * q)\<^sup>2)
       = m1 * (a1\<^sup>2 + a2\<^sup>2) + m2 * (b1\<^sup>2 + b2\<^sup>2)"
proof -
  define D where "D = d1\<^sup>2 + d2\<^sup>2"
  define M where "M = m1 + m2"
  define mu where "mu = 2 * m1 * m2 / M"
  have cD: "c * D = (a1 - b1) * d1 + (a2 - b2) * d2"
    using D by (simp add: c_def D_def)
  have mp: "m1 * p = mu * c" by (simp add: p_def mu_def M_def)
  have mq: "m2 * q = mu * c" by (simp add: q_def mu_def M_def)
  have pq: "p + q = 2 * c"
  proof -
    have "p + q = (2 * m2 + 2 * m1) / (m1 + m2) * c"
      by (simp add: p_def q_def add_divide_distrib distrib_right)
    also have "(2 * m2 + 2 * m1) / (m1 + m2) = 2" using M by (simp add: field_simps)
    finally show ?thesis by simp
  qed
  have "m1 * ((a1 - d1 * p)\<^sup>2 + (a2 - d2 * p)\<^sup>2) + m2 * ((b1 + d1 * q)\<^sup>2 + (b2 + d2 * q)\<^sup>2)
      = m1 * (a1\<^sup>2 + a2\<^sup>2) + m2 * (b1\<^sup>2 + b2\<^sup>2)
        - 2 * (m1 * p) * (a1 * d1 + a2 * d2) + 2 * (m2 * q) * (b1 * d1 + b2 * d2)
        + (m1 * p) * p * D + (m2 * q) * q * D"
    by (simp add: D_def power2_eq_square algebra_simps)
  also have "\<dots> = m1 * (a1\<^sup>2 + a2\<^sup>2) + m2 * (b1\<^sup>2 + b2\<^sup>2)
        - 2 * (mu * c) * ((a1 - b1) * d1 + (a2 - b2) * d2) + (mu * c) * (p + q) * D"
    unfolding mp mq by (simp add: algebra_simps)
  also have "\<dots> = m1 * (a1\<^sup>2 + a2\<^sup>2) + m2 * (b1\<^sup>2 + b2\<^sup>2)"
    unfolding pq cD [symmetric] by (simp add: algebra_simps)
  finally show ?thesis .
qed


text \<open>
  Claim C6: for two bodies with finite masses and distinct positions, the velocities that
  \<open>getNewVelocities\<close> returns have the same total momentum and the same total kinetic
  energy as the velocities before. The code divides by the sum of the two masses, which
  must not be \<open>0\<close>; it never is for the positive masses of the data model.
\<close>

theorem getNewVelocities_conserves:
  assumes m1: "mass bodyA = Fin m1" and m2: "mass bodyB = Fin m2"
    and M: "m1 + m2 \<noteq> 0" and pos: "position bodyA \<noteq> position bodyB"
  shows "\<exists>v1f v2f. getNewVelocities bodyA bodyB = (Inr v1f, Inr v2f)
      \<and> Vector_sum [multipliedBy v1f m1, multipliedBy v2f m2]
          = Vector_sum [multipliedBy (velocity bodyA) m1, multipliedBy (velocity bodyB) m2]
      \<and> 1 / 2 * m1 * (magnitude v1f)\<^sup>2 + 1 / 2 * m2 * (magnitude v2f)\<^sup>2
          = 1 / 2 * m1 * (magnitude (velocity bodyA))\<^sup>2
            + 1 / 2 * m2 * (magnitude (velocity bodyB))\<^sup>2"
proof -
  define a1 a2 b1 b2 where "a1 = x (velocity bodyA)" and "a2 = y (velocity bodyA)"
    and "b1 = x (velocity bodyB)" and "b2 = y (velocity bodyB)"
  define d1 d2 where "d1 = x (position bodyA) - x (position bodyB)"
    and "d2 = y (position bodyA) - y (position bodyB)"
  define c where "c = ((a1 - b1) * d1 + (a2 - b2) * d2) / (d1\<^sup>2 + d2\<^sup>2)"
  define p q where "p = 2 * m2 / (m1 + m2) * c" and "q = 2 * m1 / (m1 + m2) * c"
  define v1f v2f where "v1f = Vector (a1 - d1 * p) (a2 - d2 * p)"
    and "v2f = Vector (b1 + d1 * q) (b2 + d2 * q)"
  have D: "d1\<^sup>2 + d2\<^sup>2 \<noteq> 0"
    using pos by (auto simp: d1_def d2_def Vector_eq_iff)
  have M': "m2 + m1 \<noteq> 0" using M by (simp add: add.commute)
  have xd: "Vector_difference (position bodyA) [position bodyB] = Vector d1 d2"
    by (simp add: Vector_difference1 d1_def d2_def)
  have vd: "Vector_difference (velocity bodyA) [velocity bodyB] = Vector (a1 - b1) (a2 - b2)"
    by (simp add: Vector_difference1 a1_def a2_def b1_def b2_def)
  have q1: "quotient (Vector_dot [Vector (a1 - b1) (a2 - b2), Vector d1 d2])
                     ((magnitude (Vector d1 d2))\<^sup>2) = Inr c"
    using D by (simp add: quotient_def magnitude_sq Vector_dot2 c_def)
  have r1: "mass_ratio (Fin m2) (Fin m1) = Inr (2 * m2 / (m1 + m2))"
    using M by (simp add: mass_ratio_def)
  have r2: "mass_ratio (Fin m1) (Fin m2) = Inr (2 * m1 / (m1 + m2))"
    using M by (simp add: mass_ratio_def add.commute)
  have e1: "Vector_difference (velocity bodyA) [multipliedBy (Vector d1 d2) (2 * m2 / (m1 + m2) * c)]
            = v1f"
    by (simp add: Vector_difference1 multipliedBy_def v1f_def a1_def a2_def p_def)
  have e2: "Vector_difference (velocity bodyB)
              [multipliedBy (multipliedBy (Vector d1 d2) (- 1)) (2 * m1 / (m1 + m2) * c)] = v2f"
    by (simp add: Vector_difference1 multipliedBy_def v2f_def b1_def b2_def q_def)
  have res: "getNewVelocities bodyA bodyB = (Inr v1f, Inr v2f)"
    using e1 e2
    by (simp add: getNewVelocities_def Let_def m1 m2 xd vd Vector_dot_inverse
        magnitude_inverse q1 r1 r2)
  have mom: "Vector_sum [multipliedBy v1f m1, multipliedBy v2f m2]
          = Vector_sum [multipliedBy (velocity bodyA) m1, multipliedBy (velocity bodyB) m2]"
  proof -
    have "m1 * p = m2 * q" by (simp add: p_def q_def)
    then have "(a1 - d1 * p) * m1 + (b1 + d1 * q) * m2 = a1 * m1 + b1 * m2"
      and "(a2 - d2 * p) * m1 + (b2 + d2 * q) * m2 = a2 * m1 + b2 * m2"
      by (simp_all add: algebra_simps)
    then show ?thesis
      by (simp add: Vector_sum2 multipliedBy_def v1f_def v2f_def a1_def a2_def b1_def b2_def)
  qed
  have en: "m1 * ((a1 - d1 * p)\<^sup>2 + (a2 - d2 * p)\<^sup>2) + m2 * ((b1 + d1 * q)\<^sup>2 + (b2 + d2 * q)\<^sup>2)
       = m1 * (a1\<^sup>2 + a2\<^sup>2) + m2 * (b1\<^sup>2 + b2\<^sup>2)"
    unfolding p_def q_def c_def by (rule elastic_alg [OF D M])
  have "1 / 2 * m1 * (magnitude v1f)\<^sup>2 + 1 / 2 * m2 * (magnitude v2f)\<^sup>2
      = 1 / 2 * (m1 * ((a1 - d1 * p)\<^sup>2 + (a2 - d2 * p)\<^sup>2) + m2 * ((b1 + d1 * q)\<^sup>2 + (b2 + d2 * q)\<^sup>2))"
    by (simp add: magnitude_sq v1f_def v2f_def algebra_simps)
  also have "\<dots> = 1 / 2 * m1 * (magnitude (velocity bodyA))\<^sup>2
            + 1 / 2 * m2 * (magnitude (velocity bodyB))\<^sup>2"
    unfolding en by (simp add: magnitude_sq a1_def a2_def b1_def b2_def algebra_simps)
  finally show ?thesis using res mom by blast
qed


theorem getNewVelocities_conserves_witness:
  "mass (ball (Vector 0 0) (Vector 1 0) 1 5) = Fin 1
   \<and> mass (ball (Vector 8 0) (Vector (- 1) 0) 3 5) = Fin 3
   \<and> (1 :: real) + 3 \<noteq> 0
   \<and> position (ball (Vector 0 0) (Vector 1 0) 1 5) \<noteq> position (ball (Vector 8 0) (Vector (- 1) 0) 3 5)
   \<and> getNewVelocities (ball (Vector 0 0) (Vector 1 0) 1 5) (ball (Vector 8 0) (Vector (- 1) 0) 3 5)
       = (Inr (Vector (- 2) 0), Inr (Vector 0 0))
   \<and> Vector_sum [multipliedBy (Vector (- 2) 0) 1, multipliedBy (Vector 0 0) 3]
       = Vector_sum [multipliedBy (Vector 1 0) 1, multipliedBy (Vector (- 1) 0) 3]
   \<and> 1 / 2 * 1 * (magnitude (Vector (- 2) 0))\<^sup>2 + 1 / 2 * 3 * (magnitude (Vector 0 0))\<^sup>2
       = (1 / 2 * 1 * (magnitude (Vector 1 0))\<^sup>2 + 1 / 2 * 3 * (magnitude (Vector (- 1) 0))\<^sup>2 :: real)"
proof -
  let ?A = "ball (Vector 0 0) (Vector 1 0) 1 5"
  let ?B = "ball (Vector 8 0) (Vector (- 1) 0) 3 5"
  have ma: "mass ?A = Fin 1" and mb: "mass ?B = Fin 3"
    by (simp_all add: ball_def Circle_new_def circle_options_def default_def)
  have ms: "(1 :: real) + 3 \<noteq> 0" by simp
  have ps: "position ?A \<noteq> position ?B"
    by (simp add: ball_def Circle_new_def circle_options_def default_def)
  have res: "getNewVelocities ?A ?B = (Inr (Vector (- 2) 0), Inr (Vector 0 0))"
    by (simp add: getNewVelocities_def ball_def Circle_new_def circle_options_def default_def Let_def
        mass_ratio_def quotient_def Vector_difference1 Vector_dot2 multipliedBy_def)
  show ?thesis
    using getNewVelocities_conserves [OF ma mb ms ps] ma mb ps
    by (simp add: res) (simp add: ball_def Circle_new_def circle_options_def default_def)
qed

section \<open>The integrator under gravity\<close>

text \<open>What the operations on the store change.\<close>

lemma Vector_add_cells:
  "cells (Vector_add s a b) r = (if r = a then add (cells s a) (cells s b) else cells s r)"
  "next_ref (Vector_add s a b) = next_ref s"
  by (auto simp add: Vector_add_def write_x_def write_y_def add_def Let_def)

lemma Vector_set_cells:
  "cells (Vector_set s a b) r = (if r = a then cells s b else cells s r)"
  "next_ref (Vector_set s a b) = next_ref s"
  by (auto simp add: Vector_set_def write_x_def write_y_def Vector_eq_iff)

lemma translate_store_cells:
  "cells (translate_store s p t) r =
     (if r = p then Vector_sum [cells s p, if t = next_ref s then cells s p else cells s t]
      else if r = next_ref s then cells s p
      else if r = Suc (next_ref s) then Vector_sum [cells s p, if t = next_ref s then cells s p else cells s t]
      else cells s r)"
  "next_ref (translate_store s p t) = Suc (Suc (next_ref s))"
  by (auto simp add: translate_store_def position_get_def position_set_def alloc_def
      Vector_set_cells Let_def)

lemma updateAcceleration_gravity:
  assumes st: "\<not> isStatic_var b" and m: "mass_var b = Fin m" and m0: "m \<noteq> 0"
    and w: "world_prop b = Some w"
    and a: "acceleration_var b < next_ref s" and f: "force_var b < next_ref s"
    and gr: "gravity_ref w < next_ref s" and wr: "world_force_ref w < next_ref s"
    and g: "cells s (gravity_ref w) = g"
    and wf: "cells s (world_force_ref w) = Vector 0 0"
    and f0: "cells s (force_var b) = Vector 0 0"
  shows "\<exists>s1. updateAcceleration s b = Inr s1 \<and> next_ref s \<le> next_ref s1
           \<and> (\<forall>r. r < next_ref s \<longrightarrow>
                  cells s1 r = (if r = acceleration_var b then g else cells s r))"
  using assms
  by (cases g)
     (simp add: updateAcceleration_def alloc_def dividedBy_def Vector_sum3 multipliedBy_def
      Vector_set_cells Let_def)

text \<open>
  One step of \<open>update\<close> under gravity alone, for a body that shares none of the objects
  the step writes to. Nothing is asked of the rotational inertia: when it is \<open>0\<close> the
  angular acceleration, the angular velocity and the angle are no longer finite, and the
  velocity and the position are updated all the same.
\<close>

lemma angular_frame:
  "position_var (updateAngle (updateAngularVelocity (updateAngularAcceleration b))) = position_var b"
  "velocity_var (updateAngle (updateAngularVelocity (updateAngularAcceleration b))) = velocity_var b"
  "acceleration_var (updateAngle (updateAngularVelocity (updateAngularAcceleration b))) = acceleration_var b"
  "force_var (updateAngle (updateAngularVelocity (updateAngularAcceleration b))) = force_var b"
  "isStatic_var (updateAngle (updateAngularVelocity (updateAngularAcceleration b))) = isStatic_var b"
  "mass_var (updateAngle (updateAngularVelocity (updateAngularAcceleration b))) = mass_var b"
  "world_prop (updateAngle (updateAngularVelocity (updateAngularAcceleration b))) = world_prop b"
  by (simp_all add: updateAngle_def rotate_object_def updateAngularVelocity_def
      updateAngularAcceleration_def split: number.split)

lemma update_step:
  assumes st: "\<not> isStatic_var b" and m: "mass_var b = Fin m" and m0: "m \<noteq> 0"
    and w: "world_prop b = Some w" and sep: "unshared s b w"
    and g: "cells s (gravity_ref w) = g"
    and wf: "cells s (world_force_ref w) = Vector 0 0"
    and f0: "cells s (force_var b) = Vector 0 0"
  shows "\<exists>b' s'. update s b = Inr (b', s')
           \<and> position_var b' = position_var b \<and> velocity_var b' = velocity_var b
           \<and> \<not> isStatic_var b' \<and> mass_var b' = Fin m \<and> world_prop b' = Some w
           \<and> unshared s' b' w
           \<and> cells s' (gravity_ref w) = g
           \<and> cells s' (world_force_ref w) = Vector 0 0
           \<and> cells s' (force_var b') = Vector 0 0
           \<and> cells s' (velocity_var b) = add (cells s (velocity_var b)) g
           \<and> cells s' (position_var b) = Vector_sum [cells s (position_var b), add (cells s (velocity_var b)) g]"
proof -
  from sep have a: "acceleration_var b < next_ref s" and f: "force_var b < next_ref s"
    and gr: "gravity_ref w < next_ref s" and wr: "world_force_ref w < next_ref s"
    and p: "position_var b < next_ref s" and v: "velocity_var b < next_ref s"
    by (simp_all add: unshared_def)
  from updateAcceleration_gravity [OF st m m0 w a f gr wr g wf f0]
  obtain s1 where s1: "updateAcceleration s b = Inr s1" "next_ref s \<le> next_ref s1"
    "\<And>r. r < next_ref s \<Longrightarrow> cells s1 r = (if r = acceleration_var b then g else cells s r)"
    by blast
  define s2 where "s2 = updateVelocity s1 b"
  define s3 where "s3 = updatePosition s2 b"
  define b' where "b' = updateAngle (updateAngularVelocity (updateAngularAcceleration b))"
  have upd: "update s b = Inr (b', s3)"
    by (simp add: update_def s1(1) s2_def s3_def b'_def Let_def)
  have n2: "next_ref s2 = next_ref s1"
    by (simp add: s2_def updateVelocity_def Vector_add_cells)
  have c2: "cells s2 r = (if r = velocity_var b then add (cells s (velocity_var b)) g
                          else if r = acceleration_var b then g else cells s r)"
    if "r < next_ref s" for r
    using that sep a v
    by (simp add: s2_def updateVelocity_def Vector_add_cells s1(3) unshared_def)
  have n3: "next_ref s \<le> next_ref s3"
    using s1(2) by (simp add: s3_def updatePosition_def translate_store_cells n2)
  have c3: "cells s3 r = (if r = position_var b
                            then Vector_sum [cells s (position_var b), add (cells s (velocity_var b)) g]
                          else cells s2 r)"
    if "r < next_ref s" for r
    using that sep p v s1(2)
    by (simp add: s3_def updatePosition_def translate_store_cells n2 c2 unshared_def)
  from sep have ne: "velocity_var b \<noteq> position_var b" "acceleration_var b \<noteq> position_var b"
    "force_var b \<noteq> position_var b" "gravity_ref w \<noteq> position_var b"
    "world_force_ref w \<noteq> position_var b" "acceleration_var b \<noteq> velocity_var b"
    "force_var b \<noteq> velocity_var b" "gravity_ref w \<noteq> velocity_var b"
    "world_force_ref w \<noteq> velocity_var b" "force_var b \<noteq> acceleration_var b"
    "gravity_ref w \<noteq> acceleration_var b" "world_force_ref w \<noteq> acceleration_var b"
    by (auto simp add: unshared_def)
  have e1: "cells s3 (gravity_ref w) = g" using ne by (simp add: c3 [OF gr] c2 [OF gr] g)
  have e2: "cells s3 (world_force_ref w) = Vector 0 0"
    using ne by (simp add: c3 [OF wr] c2 [OF wr] wf)
  have e3: "cells s3 (force_var b) = Vector 0 0" using ne by (simp add: c3 [OF f] c2 [OF f] f0)
  have e4: "cells s3 (velocity_var b) = add (cells s (velocity_var b)) g"
    using ne by (simp add: c3 [OF v] c2 [OF v])
  have e5: "cells s3 (position_var b)
              = Vector_sum [cells s (position_var b), add (cells s (velocity_var b)) g]"
    by (simp add: c3 [OF p])
  have e6: "unshared s3 b' w"
    using sep n3 by (simp add: unshared_def b'_def angular_frame)
  show ?thesis
    using upd st m w e1 e2 e3 e4 e5 e6 by (simp add: b'_def angular_frame)
qed

text \<open>The bodies of the examples, evaluated.\<close>

lemma falling_circle_eval:
  "fst (falling_circle r) =
     \<lparr> position_var = 3, angle_var = Number 0, velocity_var = 4, angularVelocity_var = Number 0,
       acceleration_var = 6, angularAcceleration_var = Number 0, mass_var = Fin 1,
       force_var = 5, torque_var = 0, isStatic_var = False,
       rotationalInertia_prop = Fin (r\<^sup>2 / 2), world_prop = Some (WorldObject 0 2) \<rparr>"
  "next_ref (snd (falling_circle r)) = 7"
  "cells (snd (falling_circle r)) 0 = Vector 0 2"
  "cells (snd (falling_circle r)) 2 = Vector 0 0"
  "cells (snd (falling_circle r)) 3 = Vector 0 0"
  "cells (snd (falling_circle r)) 4 = Vector 0 0"
  "cells (snd (falling_circle r)) 5 = Vector 0 0"
  "cells (snd (falling_circle r)) 6 = Vector 0 0"
  by (simp_all add: falling_circle_def falling_world_def World_new_def Circle_object_def
      radius_only_def addBody_def alloc_def empty_store_def default_def Let_def)

lemmas store_defs = falling_circle_def shared_circle_def falling_world_def World_new_def
  Circle_object_def radius_only_def addBody_def alloc_def empty_store_def default_def
  update_def updateAcceleration_def updateVelocity_def updatePosition_def
  updateAngularAcceleration_def updateAngularVelocity_def updateAngle_def rotate_object_def
  number_add_def number_divide_def Vector_add_def Vector_set_def write_x_def write_y_def
  translate_store_def position_get_def position_set_def dividedBy_def multipliedBy_def
  Vector_sum_def velocity_of_def position_of_def Let_def

text \<open>
  Claim C3 says that a body that is not static, starts at rest and feels only a constant
  gravity \<open>g\<close> has, after \<open>N\<close> calls of \<open>update\<close>, the velocity \<open>N g\<close> and the position
  \<open>initial + g N (N - 1) / 2\<close>. The position is wrong already for \<open>N = 1\<close>: a circle at
  \<open>(0, 0)\<close> under the gravity \<open>(0, 2)\<close> is at \<open>(0, 2)\<close> after one call, not at \<open>(0, 0)\<close>,
  because \<open>update\<close> adds the acceleration to the velocity before it adds the velocity to
  the position.
\<close>

theorem updates_once_counterexample:
  "\<exists>bs'. updates 1 (falling_circle 5) = Inr bs'
      \<and> velocity_of bs' = Vector 0 2 \<and> position_of bs' = Vector 0 2
      \<and> position_of bs' \<noteq> Vector_sum [position_of (falling_circle 5),
                                         multipliedBy (Vector 0 2) (1 * (1 - 1) / 2)]"
  by (simp add: store_defs)

text \<open>
  Two conditions that the claim does not name. When the position and the velocity of a
  body are one \<open>Vector\<close> object (the constructor keeps the objects of its options), a
  single call under the gravity \<open>(0, 2)\<close> leaves both at \<open>(0, 4)\<close>: the velocity is not
  \<open>1 g\<close>. And with the mass \<open>0\<close> the acceleration is \<open>0 / 0\<close>.
\<close>

lemma update_shared_vector:
  "\<not> isStatic_var (fst shared_circle) \<and> mass_var (fst shared_circle) = Fin 1
   \<and> world_prop (fst shared_circle) = Some (WorldObject 0 2)
   \<and> cells (snd shared_circle) 0 = Vector 0 2 \<and> cells (snd shared_circle) 2 = Vector 0 0
   \<and> cells (snd shared_circle) (force_var (fst shared_circle)) = Vector 0 0
   \<and> velocity_of shared_circle = Vector 0 0 \<and> position_of shared_circle = Vector 0 0
   \<and> position_var (fst shared_circle) = velocity_var (fst shared_circle)
   \<and> (\<exists>bs'. updates 1 shared_circle = Inr bs'
          \<and> velocity_of bs' = Vector 0 4 \<and> position_of bs' = Vector 0 4)"
  by (simp add: store_defs)

lemma update_zero_mass:
  assumes "\<not> isStatic_var b" and "world_prop b = Some w" and "mass_var b = Fin 0"
  shows "update s b = Inl NonFinite"
  using assms by (simp add: update_def updateAcceleration_def alloc_def dividedBy_def Let_def)

text \<open>
  A circle of radius \<open>0\<close> has the rotational inertia \<open>0\<close>: after three calls its angle is
  not a finite number, and its velocity and position are those of any other circle.
\<close>

lemma updates_zero_inertia:
  "rotationalInertia_prop (fst (falling_circle 0)) = Fin 0
   \<and> (\<exists>bs'. updates 3 (falling_circle 0) = Inr bs'
          \<and> velocity_of bs' = Vector 0 6 \<and> position_of bs' = Vector 0 12
          \<and> angle_var (fst bs') = NotFinite)"
  by (simp add: store_defs eval_nat_numeral)

text \<open>
  Claim C3 as amended: a body that is not static, has a finite mass other than \<open>0\<close>,
  shares none of the objects that hold its position, its velocity and its acceleration
  (with one another, with its force, or with the gravity or the force of its world),
  starts at rest and feels only a constant gravity \<open>g\<close> has, after \<open>N\<close> calls of \<open>update\<close>,
  the velocity \<open>N g\<close> and the position \<open>initial + g N (N + 1) / 2\<close>.
\<close>

theorem updates_free_fall:
  assumes st: "\<not> isStatic_var b" and m: "mass_var b = Fin m" and m0: "m \<noteq> 0"
    and w: "world_prop b = Some w" and sep: "unshared s b w"
    and g: "cells s (gravity_ref w) = g"
    and wf: "cells s (world_force_ref w) = Vector 0 0"
    and f0: "cells s (force_var b) = Vector 0 0"
    and v0: "velocity_of (b, s) = Vector 0 0"
  shows "\<exists>bs'. updates n (b, s) = Inr bs'
            \<and> velocity_of bs' = multipliedBy g (real n)
            \<and> position_of bs' = Vector_sum [position_of (b, s),
                                              multipliedBy g (real n * (real n + 1) / 2)]"
proof -
  have gen: "\<exists>b' s'. updates n (b, s) = Inr (b', s')
            \<and> position_var b' = position_var b \<and> velocity_var b' = velocity_var b
            \<and> cells s' (velocity_var b) = Vector_sum [cells s (velocity_var b), multipliedBy g (real n)]
            \<and> cells s' (position_var b)
                = Vector_sum [cells s (position_var b), multipliedBy (cells s (velocity_var b)) (real n),
                              multipliedBy g (real n * (real n + 1) / 2)]"
    if "\<not> isStatic_var b" "mass_var b = Fin m" "world_prop b = Some w" "unshared s b w"
       "cells s (gravity_ref w) = g" "cells s (world_force_ref w) = Vector 0 0"
       "cells s (force_var b) = Vector 0 0" for b s
    using that
  proof (induction n arbitrary: b s)
    case 0
    then show ?case by (simp add: Vector_sum2 Vector_sum3 multipliedBy_def)
  next
    case (Suc n)
    from update_step [OF Suc.prems(1) Suc.prems(2) m0 Suc.prems(3) Suc.prems(4) Suc.prems(5)
        Suc.prems(6) Suc.prems(7)]
    obtain b1 s1 where b1: "update s b = Inr (b1, s1)"
      "position_var b1 = position_var b" "velocity_var b1 = velocity_var b"
      "\<not> isStatic_var b1" "mass_var b1 = Fin m" "world_prop b1 = Some w" "unshared s1 b1 w"
      "cells s1 (gravity_ref w) = g" "cells s1 (world_force_ref w) = Vector 0 0"
      "cells s1 (force_var b1) = Vector 0 0"
      "cells s1 (velocity_var b) = add (cells s (velocity_var b)) g"
      "cells s1 (position_var b) = Vector_sum [cells s (position_var b), add (cells s (velocity_var b)) g]"
      by blast
    from Suc.IH [OF b1(4) b1(5) b1(6) b1(7) b1(8) b1(9) b1(10)]
    obtain b' s' where b': "updates n (b1, s1) = Inr (b', s')"
      "position_var b' = position_var b1" "velocity_var b' = velocity_var b1"
      "cells s' (velocity_var b1) = Vector_sum [cells s1 (velocity_var b1), multipliedBy g (real n)]"
      "cells s' (position_var b1)
         = Vector_sum [cells s1 (position_var b1), multipliedBy (cells s1 (velocity_var b1)) (real n),
                       multipliedBy g (real n * (real n + 1) / 2)]"
      by blast
    have "updates (Suc n) (b, s) = Inr (b', s')" by (simp add: b1(1) b'(1))
    moreover have "position_var b' = position_var b" "velocity_var b' = velocity_var b"
      by (simp_all add: b'(2) b'(3) b1(2) b1(3))
    moreover have "cells s' (velocity_var b)
                     = Vector_sum [cells s (velocity_var b), multipliedBy g (real (Suc n))]"
      using b'(4)
      by (simp add: b1(3) b1(11) Vector_sum2 add_def multipliedBy_def algebra_simps)
    moreover have "cells s' (position_var b)
                = Vector_sum [cells s (position_var b), multipliedBy (cells s (velocity_var b)) (real (Suc n)),
                              multipliedBy g (real (Suc n) * (real (Suc n) + 1) / 2)]"
      using b'(5)
      by (simp add: b1(2) b1(3) b1(11) b1(12) Vector_sum2 Vector_sum3 add_def multipliedBy_def
          field_simps)
    ultimately show ?case by blast
  qed
  from gen [OF st m w sep g wf f0] v0 show ?thesis
    by (auto simp add: velocity_of_def position_of_def Vector_sum2 Vector_sum3 multipliedBy_def)
qed

theorem updates_free_fall_witness:
  "\<not> isStatic_var (fst (falling_circle 5))
   \<and> mass_var (fst (falling_circle 5)) = Fin 1
   \<and> (1 :: real) \<noteq> 0
   \<and> world_prop (fst (falling_circle 5)) = Some (WorldObject 0 2)
   \<and> unshared (snd (falling_circle 5)) (fst (falling_circle 5)) (WorldObject 0 2)
   \<and> cells (snd (falling_circle 5)) (gravity_ref (WorldObject 0 2)) = Vector 0 2
   \<and> cells (snd (falling_circle 5)) (world_force_ref (WorldObject 0 2)) = Vector 0 0
   \<and> cells (snd (falling_circle 5)) (force_var (fst (falling_circle 5))) = Vector 0 0
   \<and> velocity_of (falling_circle 5) = Vector 0 0
   \<and> position_of (falling_circle 5) = Vector 0 0
   \<and> (\<exists>bs'. updates 3 (falling_circle 5) = Inr bs'
          \<and> velocity_of bs' = Vector 0 6 \<and> position_of bs' = Vector 0 12)"
proof -
  let ?b = "fst (falling_circle 5)" and ?s = "snd (falling_circle 5)"
  have st: "\<not> isStatic_var ?b" and m: "mass_var ?b = Fin 1"
    and w: "world_prop ?b = Some (WorldObject 0 2)"
    and sep: "unshared ?s ?b (WorldObject 0 2)"
    and g: "cells ?s (gravity_ref (WorldObject 0 2)) = Vector 0 2"
    and wf: "cells ?s (world_force_ref (WorldObject 0 2)) = Vector 0 0"
    and f0: "cells ?s (force_var ?b) = Vector 0 0"
    and v0: "velocity_of (?b, ?s) = Vector 0 0"
    and p0: "position_of (?b, ?s) = Vector 0 0"
    by (simp_all add: falling_circle_eval unshared_def velocity_of_def position_of_def)
  have m0: "(1 :: real) \<noteq> 0" by simp
  show ?thesis
    using updates_free_fall [OF st m m0 w sep g wf f0 v0, of 3] st m w sep g wf f0 v0 p0
    by (simp add: Vector_sum2 multipliedBy_def)
qed

section \<open>The separating axis test\<close>

text \<open>
  The loop that looks for the smallest penetration: it leaves its start values when no
  element is below the start value, and otherwise stops on the first index of the least
  element.
\<close>

lemma smallest_none:
  "\<forall>p\<in>set ps. \<not> p < sm \<Longrightarrow> smallest ps i idx sm = (idx, sm)"
  by (induction ps arbitrary: i) simp_all

lemma smallest_some:
  "\<exists>p\<in>set ps. p < sm \<Longrightarrow>
   \<exists>k<length ps. smallest ps i idx sm = (i + int k, ps ! k) \<and> ps ! k < sm
       \<and> (\<forall>j<length ps. ps ! k \<le> ps ! j) \<and> (\<forall>j<k. ps ! k < ps ! j)"
proof (induction ps arbitrary: i idx sm)
  case Nil
  then show ?case by simp
next
  case (Cons p ps)
  show ?case
  proof (cases "p < sm")
    case True
    show ?thesis
    proof (cases "\<exists>q\<in>set ps. q < p")
      case True
      from Cons.IH [OF True, of "i + 1" i]
      obtain k where k: "k < length ps" "smallest ps (i + 1) i p = (i + 1 + int k, ps ! k)"
        "ps ! k < p" "\<forall>j<length ps. ps ! k \<le> ps ! j" "\<forall>j<k. ps ! k < ps ! j"
        by blast
      have "Suc k < length (p # ps)" using k(1) by simp
      moreover have "smallest (p # ps) i idx sm = (i + int (Suc k), (p # ps) ! Suc k)"
        using \<open>p < sm\<close> k(2) by simp
      moreover have "(p # ps) ! Suc k < sm" using k(3) \<open>p < sm\<close> by simp
      moreover have "\<forall>j<length (p # ps). (p # ps) ! Suc k \<le> (p # ps) ! j"
        using k(3) k(4) by (auto simp: nth_Cons split: nat.split)
      moreover have "\<forall>j<Suc k. (p # ps) ! Suc k < (p # ps) ! j"
        using k(3) k(5) by (auto simp: nth_Cons split: nat.split)
      ultimately show ?thesis by blast
    next
      case False
      then have none: "\<forall>q\<in>set ps. \<not> q < p" by blast
      have "smallest (p # ps) i idx sm = (i + int 0, (p # ps) ! 0)"
        using \<open>p < sm\<close> smallest_none [OF none] by simp
      moreover have "\<forall>j<length (p # ps). (p # ps) ! 0 \<le> (p # ps) ! j"
        using none by (auto simp: nth_Cons not_less split: nat.split)
      ultimately show ?thesis using \<open>p < sm\<close> by (intro exI [of _ 0]) simp
    qed
  next
    case False
    with Cons.prems have ex: "\<exists>q\<in>set ps. q < sm" by auto
    from Cons.IH [OF ex, of "i + 1" idx]
    obtain k where k: "k < length ps" "smallest ps (i + 1) idx sm = (i + 1 + int k, ps ! k)"
      "ps ! k < sm" "\<forall>j<length ps. ps ! k \<le> ps ! j" "\<forall>j<k. ps ! k < ps ! j"
      by blast
    have lt: "ps ! k < p" using k(3) False by simp
    have "Suc k < length (p # ps)" using k(1) by simp
    moreover have "smallest (p # ps) i idx sm = (i + int (Suc k), (p # ps) ! Suc k)"
      using False k(2) by simp
    moreover have "(p # ps) ! Suc k < sm" using k(3) by simp
    moreover have "\<forall>j<length (p # ps). (p # ps) ! Suc k \<le> (p # ps) ! j"
      using lt k(4) by (auto simp: nth_Cons split: nat.split)
    moreover have "\<forall>j<Suc k. (p # ps) ! Suc k < (p # ps) ! j"
      using lt k(5) by (auto simp: nth_Cons split: nat.split)
    ultimately show ?thesis by blast
  qed
qed

lemma traverse_nth:
  "traverse f as = Inr bs \<Longrightarrow> length bs = length as \<and> (\<forall>k<length as. f (as ! k) = Inr (bs ! k))"
proof (induction as arbitrary: bs)
  case Nil
  then show ?case by simp
next
  case (Cons a as)
  then obtain b bs' where b: "f a = Inr b" "traverse f as = Inr bs'" "bs = b # bs'"
    by (auto simp: bind_Inr_iff)
  with Cons.IH [OF b(2)] show ?case
    by (auto simp: nth_Cons split: nat.split)
qed

lemma magnitude_unit: "unit v = Inr u \<Longrightarrow> magnitude u = 1"
proof -
  assume u: "unit v = Inr u"
  then have m0: "magnitude v \<noteq> 0" by (auto simp: unit_def split: if_splits)
  with u have "u = multipliedBy v (1 / magnitude v)" by (simp add: unit_Inr)
  then show ?thesis using m0 magnitude_nonneg [of v] by (simp add: magnitude_multipliedBy)
qed

lemma traverse_unit: "traverse unit vs = Inr us \<Longrightarrow> \<forall>u\<in>set us. magnitude u = 1"
proof (induction vs arbitrary: us)
  case Nil
  then show ?case by simp
next
  case (Cons v vs)
  then obtain u us' where "unit v = Inr u" "traverse unit vs = Inr us'" "us = u # us'"
    by (auto simp: bind_Inr_iff)
  with Cons.IH [of us'] show ?case by (auto dest: magnitude_unit)
qed

lemma axesOf_unit: "axesOf body other = Inr us \<Longrightarrow> \<forall>u\<in>set us. magnitude u = 1"
  by (auto simp: axesOf_def bind_Inr_iff split: Shape.splits dest: traverse_unit)

lemma getAxes_unit: "getAxes bodyA bodyB = Inr axes \<Longrightarrow> \<forall>u\<in>set axes. magnitude u = 1"
  using axesOf_unit by (fastforce simp: getAxes_def bind_Inr_iff)

lemma getPenetration_nonneg: "getPenetration bodyA bodyB axis = Inr t \<Longrightarrow> 0 \<le> penetration t"
  by (auto simp: getPenetration_def bind_Inr_iff split: if_splits)

lemma set_magnitude_unit: "magnitude v = 1 \<Longrightarrow> set_magnitude v p = Inr (multipliedBy v p)"
  by (simp add: set_magnitude_def multipliedBy_def)

lemma multiply_multipliedBy: "multiply (multipliedBy v p) (- 1) = multipliedBy v (- p)"
  by (simp add: multiply_def multipliedBy_def)

text \<open>
  Two overlapping squares of side \<open>2\<close>, the first one unit further along the first
  coordinate than the second, where the least penetration occurs on two axes; and two
  squares that are apart.
\<close>

lemma getAxes_squares:
  assumes "0 < l" and "0 < l'"
  shows "getAxes (square a b l) (square a' b' l') =
     Inr [Vector 0 (- 1), Vector (- 1) 0, Vector 0 1, Vector 1 0,
          Vector 0 (- 1), Vector (- 1) 0, Vector 0 1, Vector 1 0]"
  using assms
  by (simp add: getAxes_def axesOf_def square_def getSides_def getNormals_def
      Vector_difference_def unit_def)

lemma penetrations_small_squares:
  "traverse (getPenetration (square 1 0 2) (square 0 0 2))
     [Vector 0 (- 1), Vector (- 1) 0, Vector 0 1, Vector 1 0,
      Vector 0 (- 1), Vector (- 1) 0, Vector 0 1, Vector 1 0] =
     Inr [Penetration (CHR ''b'') 2, Penetration (CHR ''b'') 1,
          Penetration (CHR ''b'') 2, Penetration (CHR ''a'') 1,
          Penetration (CHR ''b'') 2, Penetration (CHR ''b'') 1,
          Penetration (CHR ''b'') 2, Penetration (CHR ''a'') 1]"
  by (simp add: getPenetration_def is_Polygon_def projectPolygon_def square_def Vector_dot_def
      del: is_Polygon_square)

lemma penetrations_apart:
  "traverse (getPenetration (square 0 0 2) (square 5 0 2))
     [Vector 0 (- 1), Vector (- 1) 0, Vector 0 1, Vector 1 0,
      Vector 0 (- 1), Vector (- 1) 0, Vector 0 1, Vector 1 0] =
     Inr [Penetration (CHR ''b'') 2, Penetration (CHR ''a'') 0,
          Penetration (CHR ''b'') 2, Penetration (CHR ''b'') 0,
          Penetration (CHR ''b'') 2, Penetration (CHR ''a'') 0,
          Penetration (CHR ''b'') 2, Penetration (CHR ''b'') 0]"
  by (simp add: getPenetration_def is_Polygon_def projectPolygon_def square_def Vector_dot_def
      del: is_Polygon_square)

text \<open>
  Two overlapping triangles, the second one unit further along the first coordinate than
  the first.
\<close>

lemma sqrt_25: "sqrt 25 = 5"
  by (rule real_sqrt_unique) simp_all

lemma is_Polygon_triangle [simp]: "is_Polygon (triangle a b)"
  by (simp add: is_Polygon_def triangle_def)

lemma getAxes_triangles:
  "getAxes (triangle a b) (triangle a' b') =
     Inr [Vector 0 (- 1), Vector (- 1) 0, Vector (4 / 5) (3 / 5),
          Vector 0 (- 1), Vector (- 1) 0, Vector (4 / 5) (3 / 5)]"
  by (simp add: getAxes_def axesOf_def triangle_def getSides_def getNormals_def
      Vector_difference_def unit_def magnitude_def sqrt_25)

lemma penetrations_triangles:
  "traverse (getPenetration (triangle 0 0) (triangle 1 0))
     [Vector 0 (- 1), Vector (- 1) 0, Vector (4 / 5) (3 / 5),
      Vector 0 (- 1), Vector (- 1) 0, Vector (4 / 5) (3 / 5)] =
     Inr [Penetration (CHR ''b'') 4, Penetration (CHR ''a'') 2, Penetration (CHR ''b'') (8 / 5),
          Penetration (CHR ''b'') 4, Penetration (CHR ''a'') 2, Penetration (CHR ''b'') (8 / 5)]"
  by (simp add: getPenetration_def is_Polygon_def projectPolygon_def triangle_def Vector_dot_def
      del: is_Polygon_triangle)

lemma magnitude_axis_345: "magnitude (Vector (4 / 5) (3 / 5)) = 1"
proof -
  have "(4 / 5 :: real)\<^sup>2 + (3 / 5)\<^sup>2 = 1" by (simp add: power2_eq_square)
  then show ?thesis by (simp add: magnitude_def)
qed

lemma separatingAxis_triangles:
  "separatingAxis (triangle 0 0) (triangle 1 0) = Inr (Some (Vector (- (32 / 25)) (- (24 / 25))))"
  by (simp add: separatingAxis_def getAxes_triangles penetrations_triangles
      set_magnitude_def magnitude_axis_345 multiply_def del: traverse.simps)

lemma boxes_triangles:
  "boundingBox (triangle 0 0) = Inr (Box 0 0 3 4) \<and> boundingBox (triangle 1 0) = Inr (Box 1 0 3 4)"
  by (simp add: boundingBox_def triangle_def)

lemma detectCollision_triangles:
  "detectCollision (triangle 0 0) (triangle 1 0) = Inr (Some (Vector (- (32 / 25)) (- (24 / 25))))"
  by (simp add: detectCollision_def boxes_triangles detectBoxBox_def
      separatingAxis_triangles not_Polygon_iff_Circle [symmetric])

lemma resolveCollision_triangles:
  "resolveCollision (triangle 0 0) (triangle 1 0)
     = Inr (Inr (translate (triangle 0 0) (Vector (- (32 / 25)) (- (24 / 25)))), Inr (triangle 1 0))"
  by (simp add: resolveCollision_def detectCollision_triangles)
     (simp add: triangle_def translate_def Body_translate_def getNewVelocities_def Let_def
      mass_ratio_def quotient_def Vector_difference1 Vector_sum2 Vector_dot2 multipliedBy_def add_def
      magnitude_zero_iff)

text \<open>
  Claim C1 says that \<open>separatingAxis\<close> returns \<open>false\<close> when some axis has penetration \<open>0\<close>
  and otherwise returns the axis of least penetration (the first one, on a tie) scaled to
  that penetration, attributed to the body tagged front on that axis. The code has no
  attribution: it returns one vector, which \<open>resolveCollision\<close> applies to body A. On the
  two triangles the least penetration is \<open>8/5\<close>, on the axis \<open>(4/5, 3/5)\<close>, where body B is
  in front; the vector returned is not that axis scaled to \<open>8/5\<close> but its inverse, and
  \<open>resolveCollision\<close> moves body A by it and leaves body B where it is.
\<close>

theorem separatingAxis_front_b_counterexample:
  "traverse (getPenetration (triangle 0 0) (triangle 1 0))
     [Vector 0 (- 1), Vector (- 1) 0, Vector (4 / 5) (3 / 5),
      Vector 0 (- 1), Vector (- 1) 0, Vector (4 / 5) (3 / 5)] =
     Inr [Penetration (CHR ''b'') 4, Penetration (CHR ''a'') 2, Penetration (CHR ''b'') (8 / 5),
          Penetration (CHR ''b'') 4, Penetration (CHR ''a'') 2, Penetration (CHR ''b'') (8 / 5)]
   \<and> set_magnitude (Vector (4 / 5) (3 / 5)) (8 / 5) = Inr (Vector (32 / 25) (24 / 25))
   \<and> separatingAxis (triangle 0 0) (triangle 1 0)
       = Inr (Some (Vector (- (32 / 25)) (- (24 / 25))))
   \<and> Vector (- (32 / 25)) (- (24 / 25)) \<noteq> Vector (32 / 25) (24 / 25)
   \<and> resolveCollision (triangle 0 0) (triangle 1 0)
       = Inr (Inr (translate (triangle 0 0) (Vector (- (32 / 25)) (- (24 / 25)))),
              Inr (triangle 1 0))"
  by (simp add: penetrations_triangles separatingAxis_triangles resolveCollision_triangles
      set_magnitude_def magnitude_axis_345 del: traverse.simps)


text \<open>
  Claim C1 as amended, for two bodies all of whose axes and projections are defined.
  When some axis has penetration \<open>0\<close> the result is \<open>false\<close>. Otherwise,
  when some penetration is below \<open>10000000\<close>, the value the search starts from, there is an
  axis \<open>k\<close> whose penetration is the least one and which is the first with that
  penetration, and the result is that axis scaled to the penetration when body A is
  tagged front on it, and the inverse of that when body B is: a vector for body A in both
  cases, with the penetration as its length.
\<close>

theorem separatingAxis_result:
  assumes poly: "is_Polygon bodyA \<or> is_Polygon bodyB"
    and ax: "getAxes bodyA bodyB = Inr axes"
    and tmp: "traverse (getPenetration bodyA bodyB) axes = Inr tmp"
  shows "(0 \<in> set (map penetration tmp) \<longrightarrow> separatingAxis bodyA bodyB = Inr None)
       \<and> (0 \<notin> set (map penetration tmp) \<and> (\<exists>t\<in>set tmp. penetration t < 10000000) \<longrightarrow>
           (\<exists>k<length axes.
               getPenetration bodyA bodyB (axes ! k) = Inr (tmp ! k)
             \<and> (\<forall>j<length axes. penetration (tmp ! k) \<le> penetration (tmp ! j))
             \<and> (\<forall>j<k. penetration (tmp ! k) < penetration (tmp ! j))
             \<and> separatingAxis bodyA bodyB =
                 Inr (Some (multipliedBy (axes ! k)
                        (if body_tag (tmp ! k) = CHR ''b'' then - penetration (tmp ! k)
                         else penetration (tmp ! k))))
             \<and> magnitude (multipliedBy (axes ! k)
                        (if body_tag (tmp ! k) = CHR ''b'' then - penetration (tmp ! k)
                         else penetration (tmp ! k))) = penetration (tmp ! k)))"
proof -
  define ps where "ps = map penetration tmp"
  have len: "length tmp = length axes"
    and nth: "\<forall>k<length axes. getPenetration bodyA bodyB (axes ! k) = Inr (tmp ! k)"
    using traverse_nth [OF tmp] by simp_all
  have zero: "separatingAxis bodyA bodyB = Inr None" if "0 \<in> set ps"
    using that poly by (simp add: separatingAxis_def ax tmp ps_def)
  have some: "\<exists>k<length axes.
               getPenetration bodyA bodyB (axes ! k) = Inr (tmp ! k)
             \<and> (\<forall>j<length axes. penetration (tmp ! k) \<le> penetration (tmp ! j))
             \<and> (\<forall>j<k. penetration (tmp ! k) < penetration (tmp ! j))
             \<and> separatingAxis bodyA bodyB =
                 Inr (Some (multipliedBy (axes ! k)
                        (if body_tag (tmp ! k) = CHR ''b'' then - penetration (tmp ! k)
                         else penetration (tmp ! k))))
             \<and> magnitude (multipliedBy (axes ! k)
                        (if body_tag (tmp ! k) = CHR ''b'' then - penetration (tmp ! k)
                         else penetration (tmp ! k))) = penetration (tmp ! k)"
    if nz: "0 \<notin> set ps" and small: "\<exists>t\<in>set tmp. penetration t < 10000000"
  proof -
    from small have "\<exists>p\<in>set ps. p < 10000000" by (auto simp: ps_def)
    from smallest_some [OF this, of 0 "- 1"]
    obtain k where k: "k < length ps" "smallest ps 0 (- 1) 10000000 = (int k, ps ! k)"
      "\<forall>j<length ps. ps ! k \<le> ps ! j" "\<forall>j<k. ps ! k < ps ! j"
      by auto
    have kl: "k < length axes" and kt: "k < length tmp" using k(1) len by (simp_all add: ps_def)
    have pk: "ps ! k = penetration (tmp ! k)" using kt by (simp add: ps_def)
    have unit_k: "magnitude (axes ! k) = 1"
      using getAxes_unit [OF ax] kl by simp
    have "0 \<le> penetration (tmp ! k)"
      using nth kl getPenetration_nonneg by blast
    moreover have "penetration (tmp ! k) \<noteq> 0"
      using nz kt by (auto simp: ps_def)
    ultimately have pos: "0 < penetration (tmp ! k)" by simp
    have nz': "0 \<notin> penetration ` set tmp" using nz by (simp add: ps_def)
    have res: "separatingAxis bodyA bodyB =
                 Inr (Some (multipliedBy (axes ! k)
                        (if body_tag (tmp ! k) = CHR ''b'' then - penetration (tmp ! k)
                         else penetration (tmp ! k))))"
      using poly nz' kt
      by (simp add: separatingAxis_def ax tmp ps_def [symmetric] k(2) Let_def
          set_magnitude_unit [OF unit_k] multiply_multipliedBy pk)
    have mag: "magnitude (multipliedBy (axes ! k)
                        (if body_tag (tmp ! k) = CHR ''b'' then - penetration (tmp ! k)
                         else penetration (tmp ! k))) = penetration (tmp ! k)"
      using pos by (simp add: magnitude_multipliedBy unit_k)
    have "\<forall>j<length axes. penetration (tmp ! k) \<le> penetration (tmp ! j)"
      using k(3) len kt by (simp add: ps_def)
    moreover have "\<forall>j<k. penetration (tmp ! k) < penetration (tmp ! j)"
      using k(4) kt by (simp add: ps_def)
    ultimately show ?thesis using kl nth res mag by blast
  qed
  show ?thesis using zero some unfolding ps_def by blast
qed

theorem separatingAxis_result_witness:
  "is_Polygon (square 1 0 2)
   \<and> getAxes (square 1 0 2) (square 0 0 2) =
       Inr [Vector 0 (- 1), Vector (- 1) 0, Vector 0 1, Vector 1 0,
            Vector 0 (- 1), Vector (- 1) 0, Vector 0 1, Vector 1 0]
   \<and> traverse (getPenetration (square 1 0 2) (square 0 0 2))
         [Vector 0 (- 1), Vector (- 1) 0, Vector 0 1, Vector 1 0,
          Vector 0 (- 1), Vector (- 1) 0, Vector 0 1, Vector 1 0] =
       Inr [Penetration (CHR ''b'') 2, Penetration (CHR ''b'') 1,
            Penetration (CHR ''b'') 2, Penetration (CHR ''a'') 1,
            Penetration (CHR ''b'') 2, Penetration (CHR ''b'') 1,
            Penetration (CHR ''b'') 2, Penetration (CHR ''a'') 1]
   \<and> separatingAxis (square 1 0 2) (square 0 0 2) = Inr (Some (multipliedBy (Vector (- 1) 0) (- 1)))
   \<and> magnitude (multipliedBy (Vector (- 1) 0) (- 1)) = 1
   \<and> traverse (getPenetration (square 0 0 2) (square 5 0 2))
         [Vector 0 (- 1), Vector (- 1) 0, Vector 0 1, Vector 1 0,
          Vector 0 (- 1), Vector (- 1) 0, Vector 0 1, Vector 1 0] =
       Inr [Penetration (CHR ''b'') 2, Penetration (CHR ''a'') 0,
            Penetration (CHR ''b'') 2, Penetration (CHR ''b'') 0,
            Penetration (CHR ''b'') 2, Penetration (CHR ''a'') 0,
            Penetration (CHR ''b'') 2, Penetration (CHR ''b'') 0]
   \<and> separatingAxis (square 0 0 2) (square 5 0 2) = Inr None"
proof -
  let ?axes = "[Vector 0 (- 1), Vector (- 1) 0, Vector 0 1, Vector 1 0,
                Vector 0 (- 1), Vector (- 1) 0, Vector 0 1, Vector 1 0]"
  let ?tmp = "[Penetration (CHR ''b'') 2, Penetration (CHR ''b'') 1,
               Penetration (CHR ''b'') 2, Penetration (CHR ''a'') 1,
               Penetration (CHR ''b'') 2, Penetration (CHR ''b'') 1,
               Penetration (CHR ''b'') 2, Penetration (CHR ''a'') 1]"
  have poly: "is_Polygon (square 1 0 2) \<or> is_Polygon (square 0 0 2)" by simp
  have ax: "getAxes (square 1 0 2) (square 0 0 2) = Inr ?axes"
    by (simp add: getAxes_squares)
  note inst = separatingAxis_result [OF poly ax penetrations_small_squares]
  have prem: "0 \<notin> set (map penetration ?tmp) \<and> (\<exists>t\<in>set ?tmp. penetration t < 10000000)"
    by simp
  from inst [THEN conjunct2, THEN mp, OF prem]
  obtain k where kl: "k < length ?axes"
    and least: "\<forall>j<length ?axes. penetration (?tmp ! k) \<le> penetration (?tmp ! j)"
    and first: "\<forall>j<k. penetration (?tmp ! k) < penetration (?tmp ! j)"
    and res: "separatingAxis (square 1 0 2) (square 0 0 2) =
             Inr (Some (multipliedBy (?axes ! k)
                    (if body_tag (?tmp ! k) = CHR ''b'' then - penetration (?tmp ! k)
                     else penetration (?tmp ! k))))"
    by blast
  have k: "k < 8" using kl by simp
  from k have "k = 0 \<or> k = 1 \<or> k = 2 \<or> k = 3 \<or> k = 4 \<or> k = 5 \<or> k = 6 \<or> k = 7"
    by linarith
  then have k1: "k = 1"
    using least [rule_format, of 1] first [rule_format, of 1] by auto
  have near: "separatingAxis (square 1 0 2) (square 0 0 2)
                = Inr (Some (multipliedBy (Vector (- 1) 0) (- 1)))"
    using res by (simp add: k1)
  have poly': "is_Polygon (square 0 0 2) \<or> is_Polygon (square 5 0 2)" by simp
  have ax': "getAxes (square 0 0 2) (square 5 0 2) = Inr ?axes"
    by (simp add: getAxes_squares)
  have apart: "separatingAxis (square 0 0 2) (square 5 0 2) = Inr None"
    using separatingAxis_result [OF poly' ax' penetrations_apart, THEN conjunct1] by simp
  show ?thesis
    using ax penetrations_small_squares near penetrations_apart apart
    by (simp add: magnitude_multipliedBy)
qed

section \<open>The position of a body\<close>

text \<open>
  The constructor keeps the object it is given and makes a new one only when it is given
  none. The getter allocates a new object; \<open>translate\<close> and the setter write the sum and
  the new value into the object that holds the position.
\<close>

lemma Body_position_given: "fst (Body_position s (Some r)) = r"
  by (simp add: Body_position_def alloc_def)

lemma Body_position_default: "fst (Body_position s None) = next_ref s"
  by (simp add: Body_position_def alloc_def)

lemma position_get_fresh: "fst (position_get s pos) = next_ref s"
  by (simp add: position_get_def alloc_def)

lemma position_get_cells:
  "cells (snd (position_get s pos)) = (cells s)(next_ref s := cells s pos)"
  by (simp add: position_get_def alloc_def)

lemma translate_store_position:
  assumes "pos < next_ref s" and "t < next_ref s"
  shows "cells (translate_store s pos t) pos = Vector_sum [cells s pos, cells s t]"
  using assms
  by (simp add: translate_store_def position_get_def alloc_def position_set_def Vector_set_def
      write_x_def write_y_def Vector_sum2)

lemma position_set_position:
  "cells (position_set s pos n) pos = cells s n"
  by (cases "cells s n") (simp add: position_set_def Vector_set_def write_x_def write_y_def)

text \<open>
  Claim C10 says that the getter of \<open>position\<close> returns a detached copy and that the position
  of a body changes only through \<open>translate\<close> or the setter. The second part fails: the
  constructor keeps the very \<open>Vector\<close> it was given as \<open>options.position\<close>. After
  \<open>let v = new Vector(1, 2)\<close> and \<open>new Circle({position: v, radius: 1})\<close> the assignment
  \<open>v.x = 5\<close>, which is neither of the two, changes the position of the body to \<open>(5, 2)\<close>.
\<close>

theorem position_alias_counterexample:
  "fst (alloc empty_store (Vector 1 2)) = 0
   \<and> fst (Body_position caller_store (Some 0)) = 0
   \<and> cells body_store 0 = Vector 1 2
   \<and> \<not> changes_position_by_api (WriteX 0 5)
   \<and> cells (exec 0 (WriteX 0 5) body_store) 0 = Vector 5 2
   \<and> cells (exec 0 (WriteX 0 5) body_store) 0 \<noteq> cells body_store 0"
  by (simp add: empty_store_def caller_store_def body_store_def alloc_def Body_position_def
      write_x_def)

text \<open>
  Claim C10 as amended. The object the getter returns is a new one with the same fields,
  and assigning to its \<open>x\<close> or \<open>y\<close> leaves the stored position as it is. The stored
  position changes only through \<open>translate\<close>, the setter, or an assignment to a field of
  the object that holds it, which is the object the caller passed to the constructor.
\<close>

theorem position_changes_only:
  assumes "pos < next_ref s"
  shows "fst (position_get s pos) \<noteq> pos
       \<and> cells (snd (position_get s pos)) (fst (position_get s pos)) = cells s pos
       \<and> cells (write_x (snd (position_get s pos)) (fst (position_get s pos)) v) pos = cells s pos
       \<and> cells (write_y (snd (position_get s pos)) (fst (position_get s pos)) v) pos = cells s pos
       \<and> (\<not> changes_position_by_api act \<and> \<not> writes_to pos act
            \<longrightarrow> cells (exec pos act s) pos = cells s pos)"
proof -
  have fresh: "fst (position_get s pos) \<noteq> pos"
    using assms by (simp add: position_get_fresh)
  have copy: "cells (snd (position_get s pos)) (fst (position_get s pos)) = cells s pos"
    by (simp add: position_get_fresh position_get_cells)
  have wx: "cells (write_x (snd (position_get s pos)) (fst (position_get s pos)) v) pos = cells s pos"
    using assms by (simp add: write_x_def position_get_fresh position_get_cells)
  have wy: "cells (write_y (snd (position_get s pos)) (fst (position_get s pos)) v) pos = cells s pos"
    using assms by (simp add: write_y_def position_get_fresh position_get_cells)
  have frame: "cells (exec pos act s) pos = cells s pos"
    if "\<not> changes_position_by_api act" and "\<not> writes_to pos act"
    using that assms
    by (cases act) (simp_all add: position_get_cells write_x_def write_y_def)
  show ?thesis using fresh copy wx wy frame by blast
qed


theorem position_changes_only_witness:
  "(0 :: nat) < next_ref body_store
   \<and> fst (position_get body_store 0) \<noteq> 0
   \<and> cells (snd (position_get body_store 0)) (fst (position_get body_store 0)) = Vector 1 2
   \<and> cells (write_x (snd (position_get body_store 0)) (fst (position_get body_store 0)) 7) 0
       = Vector 1 2
   \<and> cells (write_y (snd (position_get body_store 0)) (fst (position_get body_store 0)) 7) 0
       = Vector 1 2
   \<and> \<not> changes_position_by_api ReadPosition \<and> \<not> writes_to 0 ReadPosition
   \<and> cells (exec 0 ReadPosition body_store) 0 = Vector 1 2"
proof -
  have n: "(0 :: nat) < next_ref body_store"
    by (simp add: empty_store_def caller_store_def body_store_def alloc_def Body_position_def)
  have c: "cells body_store 0 = Vector 1 2"
    by (simp add: empty_store_def caller_store_def body_store_def alloc_def Body_position_def)
  show ?thesis
    using position_changes_only [OF n, of 7 ReadPosition] n by (simp add: c)
qed


section \<open>Exceptions raised by the detection\<close>

text \<open>
  The first half of claim C7 holds: with neither body a polygon, \<open>separatingAxis\<close> throws
  the error of the contract and returns nothing.
\<close>

lemma separatingAxis_without_polygon:
  "\<not> is_Polygon bodyA \<Longrightarrow> \<not> is_Polygon bodyB \<Longrightarrow>
   separatingAxis bodyA bodyB = Inl (Error ''One of the bodies must be a polygon to use the SAT'')"
  by (simp add: separatingAxis_def)

text \<open>
  Two squares of side \<open>30000000\<close>, the second shifted by \<open>10000000\<close> along the first
  coordinate: the penetration on each of the eight axes.
\<close>

lemma penetrations_big_squares:
  "traverse (getPenetration (square 0 0 30000000) (square 10000000 0 30000000))
     [Vector 0 (- 1), Vector (- 1) 0, Vector 0 1, Vector 1 0,
      Vector 0 (- 1), Vector (- 1) 0, Vector 0 1, Vector 1 0] =
     Inr [Penetration (CHR ''b'') 30000000, Penetration (CHR ''a'') 20000000,
          Penetration (CHR ''b'') 30000000, Penetration (CHR ''b'') 20000000,
          Penetration (CHR ''b'') 30000000, Penetration (CHR ''a'') 20000000,
          Penetration (CHR ''b'') 30000000, Penetration (CHR ''b'') 20000000]"
  by (simp add: getPenetration_def is_Polygon_def projectPolygon_def square_def Vector_dot_def
      del: is_Polygon_square)

lemma separatingAxis_big_squares:
  "separatingAxis (square 0 0 30000000) (square 10000000 0 30000000) = Inl TypeError"
  by (simp add: separatingAxis_def getAxes_squares penetrations_big_squares
      del: traverse.simps)

lemma boxes_big_squares:
  "boundingBox (square 0 0 30000000) = Inr (Box 0 0 30000000 30000000)
   \<and> boundingBox (square 10000000 0 30000000) = Inr (Box 10000000 0 30000000 30000000)"
  by (simp add: boundingBox_def square_def)

text \<open>
  Claim C7 says that \<open>separatingAxis\<close> without a polygon throws, and that this violation
  of the contract is the only failure the detection raises. The second half fails on the
  two overlapping squares above: every penetration is at least \<open>10000000\<close>, the value the
  search for the smallest one starts from, so the index stays \<open>-1\<close> and the detection
  throws a \<open>TypeError\<close>, both from \<open>separatingAxis\<close> and from \<open>detectCollision\<close>.
\<close>

theorem detection_raises_TypeError:
  "is_Polygon (square 0 0 30000000) \<and> is_Polygon (square 10000000 0 30000000)
   \<and> separatingAxis (square 0 0 30000000) (square 10000000 0 30000000) = Inl TypeError
   \<and> detectCollision (square 0 0 30000000) (square 10000000 0 30000000) = Inl TypeError"
  by (simp add: detectCollision_def boxes_big_squares detectBoxBox_def
      separatingAxis_big_squares not_Polygon_iff_Circle [symmetric])

end
